theory Spec2Isabelle
  imports Complex_Main "HOL-Library.AList" "HOL-Library.Multiset" "HOL-Library.Code_Target_Nat"
begin

section \<open>Apple sales bot: report parsing, aggregation and Slack formatting\<close>

text \<open>
  A shallow embedding of \<^verbatim>\<open>src/index.js\<close>.

  Conventions of the embedding.
  \<^item> A JavaScript number is a rational: arithmetic is exact, so the rounding of IEEE
    doubles, \<^verbatim>\<open>NaN\<close> as a stored value and the infinities are not represented.
    \<^verbatim>\<open>NaN\<close> as the result of \<^verbatim>\<open>Number(...)\<close> is \<open>None\<close>. The one place where
    the source can produce an infinity from finite input, \<^verbatim>\<open>1 / fxRate\<close> at a rate of
    zero, ends the embedding's run with \<open>NotFinite\<close> instead of HOL's \<open>1 / 0 = 0\<close>.
  \<^item> A cell of a report, and any value read from a row, is \<open>Undefined\<close>, \<open>Null\<close> or a
    string.
  \<^item> An object used as a dictionary is an association list of its own properties in
    insertion order; properties inherited from \<^verbatim>\<open>Object.prototype\<close> are not
    represented.
  \<^item> A thrown exception or a rejected promise is \<open>Inl\<close> of a \<open>failure\<close>.
  \<^item> Functions of the JavaScript runtime and of libraries whose results are not
    determined by the rational value or by the bytes of a string are parameters:
    \<open>N\<close> is \<^verbatim>\<open>Number\<close> on a string, \<open>S\<close> is \<^verbatim>\<open>Number.prototype.toString\<close>, \<open>lc\<close> is
    \<^verbatim>\<open>String.prototype.localeCompare\<close>, \<open>dateStr\<close> is the date as \<^verbatim>\<open>moment\<close> formats it.
    The statements hold for every choice of them; the examples fix simple ones.
  \<^item> A date is a day number, and the collaborators (the report source, the rate source)
    are given by what their promises settle with.
\<close>

subsection \<open>Values, rows and records\<close>

datatype jsval = Undefined | Null | Str string

datatype failure =
    TypeError
  | NotFinite
  | ReportError "int option"
  | RatesError

type_synonym row = "jsval list"

type_synonym report = "row list"

type_synonym rates = "string \<rightharpoonup> rat"

record app =
  title :: jsval
  country :: jsval
  icon :: jsval
  installs :: rat
  revenue :: rat

type_synonym apps = "(string \<times> app) list"

definition INSTALL_TYPES :: "string list" where
  "INSTALL_TYPES = [''1'', ''1F'', ''1T'', ''F1'', ''1E'', ''1EP'', ''1EU'']"

definition IAP_TYPES :: "string list" where
  "IAP_TYPES = [''IA1'', ''IA9'', ''IAY'', ''IAC'', ''FI1'']"

definition MAX_ATTACHMENTS :: nat where
  "MAX_ATTACHMENTS = 20"

definition NO_REPORT_ERRORS :: "int list" where
  "NO_REPORT_ERRORS = [210, 211, 212]"

definition ERR_NO_SALES :: int where
  "ERR_NO_SALES = 213"

subsection \<open>JavaScript primitives\<close>

text \<open>\<^verbatim>\<open>String(v)\<close>, which is also how a value becomes a property key in \<^verbatim>\<open>obj[v]\<close>.\<close>

fun String_of :: "jsval \<Rightarrow> string" where
  "String_of Undefined = ''undefined''"
| "String_of Null = ''null''"
| "String_of (Str s) = s"

text \<open>\<^verbatim>\<open>array.indexOf(v)\<close>: the first position holding \<open>v\<close>, or \<open>-1\<close>.\<close>

primrec indexOf :: "jsval list \<Rightarrow> jsval \<Rightarrow> int" where
  "indexOf [] v = - 1"
| "indexOf (x # xs) v =
     (if x = v then 0 else (let i = indexOf xs v in if i < 0 then - 1 else i + 1))"

text \<open>\<^verbatim>\<open>row[i]\<close>: reading outside the array, also at \<open>-1\<close>, gives \<^verbatim>\<open>undefined\<close>.\<close>

definition row_at :: "jsval list \<Rightarrow> int \<Rightarrow> jsval" where
  "row_at r i = (if 0 \<le> i \<and> i < int (length r) then r ! nat i else Undefined)"

text \<open>
  \<^verbatim>\<open>Number(v)\<close>: \<^verbatim>\<open>undefined\<close> gives \<^verbatim>\<open>NaN\<close>, \<^verbatim>\<open>null\<close> gives 0, a string is read by the
  runtime (\<open>N\<close>, with \<open>None\<close> for \<^verbatim>\<open>NaN\<close>).
\<close>

fun Number :: "(string \<Rightarrow> rat option) \<Rightarrow> jsval \<Rightarrow> rat option" where
  "Number N Undefined = None"
| "Number N Null = Some 0"
| "Number N (Str s) = N s"

text \<open>\<^verbatim>\<open>x || 0\<close> on a number: \<^verbatim>\<open>NaN\<close> and 0 are falsy.\<close>

fun orZero :: "rat option \<Rightarrow> rat" where
  "orZero None = 0"
| "orZero (Some x) = (if x = 0 then 0 else x)"

text \<open>\<^verbatim>\<open>set.has(v)\<close> for a \<^verbatim>\<open>Set\<close> of strings.\<close>

fun has :: "string list \<Rightarrow> jsval \<Rightarrow> bool" where
  "has xs (Str s) = (s \<in> set xs)"
| "has xs v = False"

text \<open>\<^verbatim>\<open>promise.then(f)\<close>: a rejection passes through.\<close>

fun andThen :: "failure + 'a \<Rightarrow> ('a \<Rightarrow> failure + 'b) \<Rightarrow> failure + 'b" where
  "andThen (Inl e) f = Inl e"
| "andThen (Inr x) f = f x"

text \<open>\<^verbatim>\<open>rows.forEach(f)\<close> with the mapping threaded through; an exception ends the loop.\<close>

fun forEach :: "('s \<Rightarrow> 'a \<Rightarrow> failure + 's) \<Rightarrow> 'a list \<Rightarrow> 's \<Rightarrow> failure + 's" where
  "forEach f [] s = Inr s"
| "forEach f (x # xs) s = (case f s x of Inl e \<Rightarrow> Inl e | Inr s' \<Rightarrow> forEach f xs s')"

text \<open>
  \<^verbatim>\<open>text.split(c)\<close> for a one-character separator: the pieces between the
  separators, an empty text giving one empty piece.
\<close>

fun split :: "char \<Rightarrow> string \<Rightarrow> string list" where
  "split c [] = [[]]"
| "split c (x # xs) =
     (if x = c then [] # split c xs
      else (case split c xs of [] \<Rightarrow> [[x]] | p # ps \<Rightarrow> (x # p) # ps))"

text \<open>
  \<^verbatim>\<open>cell.trim()\<close>. A character here is a code unit below 256; of the white space and
  line terminators of ECMAScript those are 9 to 13, 32 and 160.
\<close>

definition isWhiteSpace :: "char \<Rightarrow> bool" where
  "isWhiteSpace ch \<longleftrightarrow> (of_char ch :: nat) \<in> {9, 10, 11, 12, 13, 32, 160}"

definition trim :: "string \<Rightarrow> string" where
  "trim s = rev (dropWhile isWhiteSpace (rev (dropWhile isWhiteSpace s)))"

text \<open>\<^verbatim>\<open>\d\<close>: the ten ASCII digits; and the number a run of digits denotes.\<close>

definition isDigit :: "char \<Rightarrow> bool" where
  "isDigit ch \<longleftrightarrow> 48 \<le> (of_char ch :: nat) \<and> (of_char ch :: nat) \<le> 57"

fun digitsValue :: "nat \<Rightarrow> string \<Rightarrow> nat" where
  "digitsValue acc [] = acc"
| "digitsValue acc (d # ds) = digitsValue (10 * acc + (of_char d - 48)) ds"

text \<open>
  \<^verbatim>\<open>Object.keys(obj)\<close>: the keys that are array indices (canonical decimal numerals
  below \<open>2^32 - 1\<close>) in ascending order, then the other keys in insertion order.
\<close>

definition isArrayIndex :: "string \<Rightarrow> bool" where
  "isArrayIndex k \<longleftrightarrow>
     k \<noteq> [] \<and> list_all isDigit k \<and> (k = ''0'' \<or> hd k \<noteq> CHR ''0'')
     \<and> digitsValue 0 k < 4294967295"

definition Object_keys :: "(string \<times> 'a) list \<Rightarrow> string list" where
  "Object_keys m =
     sort_key (digitsValue 0) (filter isArrayIndex (map fst m))
     @ filter (\<lambda>k. \<not> isArrayIndex k) (map fst m)"

text \<open>
  \<^verbatim>\<open>array.sort(compare)\<close>, as a stable insertion sort: an element goes before the
  first one it does not compare greater than. ECMAScript fixes the result for a
  consistent comparator and leaves the order of the calls to the engine; an exception
  in the comparator ends the sort.
\<close>

fun insertSorted :: "('a \<Rightarrow> 'a \<Rightarrow> failure + int) \<Rightarrow> 'a \<Rightarrow> 'a list \<Rightarrow> failure + 'a list" where
  "insertSorted cmp x [] = Inr [x]"
| "insertSorted cmp x (y # ys) =
     andThen (cmp x y) (\<lambda>c.
       if c \<le> 0 then Inr (x # y # ys)
       else andThen (insertSorted cmp x ys) (\<lambda>zs. Inr (y # zs)))"

fun Array_sort :: "('a \<Rightarrow> 'a \<Rightarrow> failure + int) \<Rightarrow> 'a list \<Rightarrow> failure + 'a list" where
  "Array_sort cmp [] = Inr []"
| "Array_sort cmp (x # xs) = andThen (Array_sort cmp xs) (insertSorted cmp x)"

text \<open>The decimal digits of a natural number.\<close>

definition digit :: "nat \<Rightarrow> char" where
  "digit d = char_of (48 + d)"

fun digitsOf :: "nat \<Rightarrow> string" where
  "digitsOf n = (if n < 10 then [digit n] else digitsOf (n div 10) @ [digit (n mod 10)])"

declare digitsOf.simps [simp del]

text \<open>
  \<^verbatim>\<open>x.toFixed(f)\<close>, by the steps of ECMAScript: from \<open>10^21\<close> on the result is
  \<^verbatim>\<open>x.toString()\<close>; below, the sign, then the digits of the integer \<open>n\<close> for which
  \<open>n / 10^f\<close> is nearest to \<open>|x|\<close> (the larger one of two), padded with zeros to
  \<open>f + 1\<close> digits, with a point before the last \<open>f\<close>.
\<close>

definition padAndPoint :: "nat \<Rightarrow> string \<Rightarrow> string" where
  "padAndPoint f m =
     (let m1 = (if length m \<le> f then replicate (f + 1 - length m) (CHR ''0'') @ m else m);
          k = length m1
      in take (k - f) m1 @ ''.'' @ drop (k - f) m1)"

definition toFixed :: "(rat \<Rightarrow> string) \<Rightarrow> rat \<Rightarrow> nat \<Rightarrow> string" where
  "toFixed S x f =
     (if \<bar>x\<bar> \<ge> 10 ^ 21 then S x
      else
        (let s = (if x < 0 then ''-'' else []);
             n = nat \<lfloor>\<bar>x\<bar> * 10 ^ f + 1 / 2\<rfloor>;
             m = digitsOf n
         in if f \<noteq> 0 then s @ padAndPoint f m else s @ m))"

text \<open>
  \<^verbatim>\<open>str.replace(/\B(?=(\d{3})+(?!\d))/g, ',')\<close>. The pattern matches the empty string
  at a position that is not a word boundary (\<^verbatim>\<open>\B\<close>: the characters before and after
  are both word characters or both not, the ends of the string counting as not) and
  that is followed by a run of digits whose length is a positive multiple of three
  (\<^verbatim>\<open>(\d{3})+\<close> up to a character that is not a digit). A comma goes in at each such
  position. \<open>prev\<close> is the character before the position, \<open>None\<close> at the start. At
  the end of the string nothing follows, so the pattern does not match there.
\<close>

definition isWordChar :: "char \<Rightarrow> bool" where
  "isWordChar ch \<longleftrightarrow>
     (let n = (of_char ch :: nat)
      in (48 \<le> n \<and> n \<le> 57) \<or> (65 \<le> n \<and> n \<le> 90) \<or> (97 \<le> n \<and> n \<le> 122) \<or> n = 95)"

definition notBoundary :: "char option \<Rightarrow> char \<Rightarrow> bool" where
  "notBoundary prev ch \<longleftrightarrow>
     (case prev of None \<Rightarrow> False | Some p \<Rightarrow> isWordChar p) = isWordChar ch"

definition lookahead :: "string \<Rightarrow> bool" where
  "lookahead s \<longleftrightarrow>
     (let n = length (takeWhile isDigit s) in n > 0 \<and> n mod 3 = 0)"

fun insertCommas :: "char option \<Rightarrow> string \<Rightarrow> string" where
  "insertCommas prev [] = []"
| "insertCommas prev (ch # cs) =
     (if notBoundary prev ch \<and> lookahead (ch # cs)
      then CHR '','' # ch # insertCommas (Some ch) cs
      else ch # insertCommas (Some ch) cs)"

subsection \<open>parseSalesReport\<close>

record columns =
  idxAppID :: int
  idxCountry :: int
  idxCurrency :: int
  idxTitle :: int
  idxUnits :: int
  idxRevenue :: int
  idxType :: int

definition resolveColumns :: "row \<Rightarrow> columns" where
  "resolveColumns header =
     \<lparr> idxAppID = indexOf header (Str ''Apple Identifier''),
       idxCountry = indexOf header (Str ''Country Code''),
       idxCurrency = indexOf header (Str ''Currency of Proceeds''),
       idxTitle = indexOf header (Str ''Title''),
       idxUnits = indexOf header (Str ''Units''),
       idxRevenue = indexOf header (Str ''Developer Proceeds''),
       idxType = indexOf header (Str ''Product Type Identifier'') \<rparr>"

text \<open>
  The body of the \<^verbatim>\<open>forEach\<close> over the data rows. \<^verbatim>\<open>apps[appID] = app\<close> appends the
  new record; the later \<^verbatim>\<open>app.installs += ...\<close> mutates the record that the mapping
  holds, which is an update in place of the entry.
\<close>

definition parseRow ::
  "(string \<Rightarrow> rat option) \<Rightarrow> rates \<Rightarrow> columns \<Rightarrow> apps \<Rightarrow> row \<Rightarrow> failure + apps" where
  "parseRow N rts c apps r =
     (let appID = String_of (row_at r (idxAppID c));
          (app, apps1) =
            (case map_of apps appID of
               Some a \<Rightarrow> (a, apps)
             | None \<Rightarrow>
                 (let a = \<lparr> title = row_at r (idxTitle c), country = row_at r (idxCountry c),
                             icon = Null, installs = 0, revenue = 0 \<rparr>
                  in (a, AList.update appID a apps)));
          type = row_at r (idxType c);
          units = orZero (Number N (row_at r (idxUnits c)));
          localRevenue = orZero (Number N (row_at r (idxRevenue c)));
          currency = String_of (row_at r (idxCurrency c))
      in case rts currency of
           Some fxRate \<Rightarrow>
             if has INSTALL_TYPES type then
               (if fxRate = 0 then Inl NotFinite
                else Inr (AList.update appID
                       (app\<lparr> installs := installs app + units,
                             revenue := revenue app + units * localRevenue * (1 / fxRate) \<rparr>)
                       apps1))
             else if has IAP_TYPES type then
               (if fxRate = 0 then Inl NotFinite
                else Inr (AList.update appID
                       (app\<lparr> revenue := revenue app + units * localRevenue * (1 / fxRate) \<rparr>)
                       apps1))
             else Inr apps1
         | None \<Rightarrow> Inr apps1)"

text \<open>
  \<open>report\<close> is \<open>None\<close> for \<^verbatim>\<open>null\<close>, on which \<^verbatim>\<open>report.length\<close> throws a
  \<^verbatim>\<open>TypeError\<close>. \<^verbatim>\<open>report.slice(1)\<close> is the tail.
\<close>

definition parseSalesReport ::
  "(string \<Rightarrow> rat option) \<Rightarrow> report option \<Rightarrow> rates \<Rightarrow> failure + apps" where
  "parseSalesReport N report rts =
     (case report of
        None \<Rightarrow> Inl TypeError
      | Some rep \<Rightarrow>
          if length rep < 2 then Inr []
          else forEach (parseRow N rts (resolveColumns (hd rep))) (tl rep) [])"

subsection \<open>getDailySales, getExchangeRates, getSalesForDate\<close>

text \<open>
  What \<^verbatim>\<open>reporter.Sales.getReport\<close> settles with: the text of the report, or an error,
  of which the code reads \<^verbatim>\<open>Number(err.code)\<close> (\<open>None\<close> for \<^verbatim>\<open>NaN\<close>). The reporter is
  a function of the date, a day number.
\<close>

datatype report_outcome = ReportText string | ReportRejected "int option"

definition getDailySales :: "(int \<Rightarrow> report_outcome) \<Rightarrow> int \<Rightarrow> failure + report option" where
  "getDailySales getReport date =
     (case getReport date of
        ReportText text \<Rightarrow>
          Inr (Some (map (\<lambda>r. map (\<lambda>cell. if trim cell = [] then Null else Str (trim cell))
                                (split (CHR 0x09) r))
                      (filter (\<lambda>r. length r > 1) (split (CHR 0x0A) text))))
      | ReportRejected code \<Rightarrow>
          (case code of
             None \<Rightarrow> Inl (ReportError None)
           | Some n \<Rightarrow>
               if n \<in> set NO_REPORT_ERRORS then Inr None
               else if n = ERR_NO_SALES then Inr (Some [])
               else Inl (ReportError (Some n))))"

text \<open>
  What the request to the rate source settles with: an error, or a body, whose
  \<^verbatim>\<open>rates\<close> may be missing.
\<close>

datatype rates_outcome = RatesFailed | RatesBody "rates option"

definition getExchangeRates :: "rates_outcome \<Rightarrow> failure + rates" where
  "getExchangeRates resp =
     (case resp of
        RatesFailed \<Rightarrow> Inl RatesError
      | RatesBody None \<Rightarrow> Inl RatesError
      | RatesBody (Some r) \<Rightarrow> Inr (r(''USD'' \<mapsto> 1)))"

text \<open>
  The object with the keys \<^verbatim>\<open>day\<close>, \<^verbatim>\<open>prevDay\<close> and \<^verbatim>\<open>prevWeek\<close>: the three mappings
  of a run (\<open>None\<close> for \<^verbatim>\<open>null\<close>), and later the three running totals.
\<close>

record 'a periods =
  day :: 'a
  prevDay :: 'a
  prevWeek :: 'a

type_synonym sales = "apps option periods"

text \<open>
  \<open>None\<close> as a result is \<^verbatim>\<open>null\<close>. An empty array of rows is truthy, so only
  \<^verbatim>\<open>null\<close> ends the run early; the reports of the two comparison dates go to
  \<^verbatim>\<open>parseSalesReport\<close> as they come.
\<close>

definition getSalesForDate ::
  "(string \<Rightarrow> rat option) \<Rightarrow> (int \<Rightarrow> report_outcome) \<Rightarrow> rates_outcome \<Rightarrow> int
     \<Rightarrow> failure + sales option" where
  "getSalesForDate N getReport ratesResp date =
     (let prevDate = date - 1;
          prevWeekDate = date - 7
      in andThen (getDailySales getReport date) (\<lambda>report.
           case report of
             None \<Rightarrow> Inr None
           | Some rep \<Rightarrow>
               andThen (getExchangeRates ratesResp) (\<lambda>rts.
               andThen (parseSalesReport N (Some rep) rts) (\<lambda>d.
                 if length (Object_keys d) = 0
                 then Inr (Some \<lparr> day = Some d, prevDay = None, prevWeek = None \<rparr>)
                 else
                   andThen (getDailySales getReport prevDate) (\<lambda>report1.
                   andThen (parseSalesReport N report1 rts) (\<lambda>pd.
                   andThen (getDailySales getReport prevWeekDate) (\<lambda>report2.
                   andThen (parseSalesReport N report2 rts) (\<lambda>pw.
                     Inr (Some \<lparr> day = Some d, prevDay = Some pd, prevWeek = Some pw \<rparr>)))))))))"

subsection \<open>The formatters\<close>

definition formatNumber :: "(rat \<Rightarrow> string) \<Rightarrow> rat \<Rightarrow> string" where
  "formatNumber S v = insertCommas None (S v)"

definition formatPercent :: "(rat \<Rightarrow> string) \<Rightarrow> rat \<Rightarrow> string" where
  "formatPercent S v =
     (let plus = (if v \<ge> 0 then ''+'' else []);
          num = insertCommas None (toFixed S (v * 100) 1)
      in plus @ num @ ''%'')"

definition formatPercentsField :: "(rat \<Rightarrow> string) \<Rightarrow> rat \<Rightarrow> rat \<Rightarrow> rat \<Rightarrow> string" where
  "formatPercentsField S dayValue prevDayValue prevWeekValue =
     (let dayPct = (if prevDayValue \<noteq> 0
                    then (dayValue - prevDayValue) / \<bar>prevDayValue\<bar> else 1);
          weekPct = (if prevWeekValue \<noteq> 0
                     then (dayValue - prevWeekValue) / \<bar>prevWeekValue\<bar> else 1)
      in formatPercent S dayPct @ '' day / '' @ formatPercent S weekPct @ '' week'')"

definition formatCurrency :: "(rat \<Rightarrow> string) \<Rightarrow> rat \<Rightarrow> string" where
  "formatCurrency S v =
     (let minus = (if v < 0 then ''-'' else []);
          sig = (if \<bar>v\<bar> \<ge> 100 then 0 else 2);
          num = insertCommas None (toFixed S \<bar>v\<bar> sig)
      in minus @ ''$'' @ num)"

subsection \<open>buildSlackMessage\<close>

datatype field = SlackField (field_title: "string option") (field_value: string) (field_short: bool)

record attachment =
  fallback :: string
  color :: string
  author_name :: "jsval option"
  author_icon :: "jsval option"
  pretext :: "string option"
  att_title :: "string option"
  att_fields :: "field list"

datatype message = MsgText string | MsgAttachments "attachment list"

definition createFields ::
  "(rat \<Rightarrow> string) \<Rightarrow> rat \<Rightarrow> rat \<Rightarrow> rat \<Rightarrow> rat \<Rightarrow> rat \<Rightarrow> rat \<Rightarrow> field list" where
  "createFields S insts revn prevDayInstalls prevDayRevenue prevWeekInstalls prevWeekRevenue =
     [SlackField (Some ''Downloads'') (formatNumber S insts) True]
     @ (if revn \<noteq> 0 then [SlackField (Some ''Revenue'') (formatCurrency S revn) True] else [])
     @ [SlackField None (formatPercentsField S insts prevDayInstalls prevWeekInstalls) True]
     @ (if revn \<noteq> 0
        then [SlackField None (formatPercentsField S revn prevDayRevenue prevWeekRevenue) True]
        else [])"

text \<open>
  The comparator \<^verbatim>\<open>sales.day[a].title.localeCompare(sales.day[b].title)\<close>: a title
  that is not a string has no \<^verbatim>\<open>localeCompare\<close>, and the argument is converted to a
  string.
\<close>

definition titleCompare ::
  "(string \<Rightarrow> string \<Rightarrow> int) \<Rightarrow> apps \<Rightarrow> string \<Rightarrow> string \<Rightarrow> failure + int" where
  "titleCompare lc d a b =
     (case map_of d a of
        None \<Rightarrow> Inl TypeError
      | Some x \<Rightarrow>
          (case title x of
             Str s \<Rightarrow>
               (case map_of d b of
                  None \<Rightarrow> Inl TypeError
                | Some y \<Rightarrow> Inr (lc s (String_of (title y))))
           | _ \<Rightarrow> Inl TypeError))"

text \<open>
  \<^verbatim>\<open>{ installs: 0, revenue: 0 }\<close>, the stand-in for an app that a comparison mapping
  lacks; its other properties read as \<^verbatim>\<open>undefined\<close>.
\<close>

definition zeroApp :: app where
  "zeroApp = \<lparr> title = Undefined, country = Undefined, icon = Undefined,
                installs = 0, revenue = 0 \<rparr>"

record build_state =
  totalInstalls :: "rat periods"
  totalRevenue :: "rat periods"
  attachments :: "attachment list"

text \<open>The body of \<^verbatim>\<open>appIDs.forEach\<close>.\<close>

definition appSection :: "(rat \<Rightarrow> string) \<Rightarrow> sales \<Rightarrow> build_state \<Rightarrow> string \<Rightarrow> failure + build_state" where
  "appSection S sales st appID =
     (case day sales of
        None \<Rightarrow> Inl TypeError
      | Some d \<Rightarrow>
     (case map_of d appID of
        None \<Rightarrow> Inl TypeError
      | Some app \<Rightarrow>
     (case prevDay sales of
        None \<Rightarrow> Inl TypeError
      | Some pd \<Rightarrow>
     (case prevWeek sales of
        None \<Rightarrow> Inl TypeError
      | Some pw \<Rightarrow>
          (let prevDayApp = (case map_of pd appID of Some a \<Rightarrow> a | None \<Rightarrow> zeroApp);
               prevWeekApp = (case map_of pw appID of Some a \<Rightarrow> a | None \<Rightarrow> zeroApp);
               isGood = (if revenue app \<noteq> 0 then revenue app > revenue prevDayApp
                         else installs app > installs prevDayApp)
           in Inr \<lparr>
                totalInstalls = \<lparr>
                  day = day (totalInstalls st) + installs app,
                  prevDay = prevDay (totalInstalls st) + installs prevDayApp,
                  prevWeek = prevWeek (totalInstalls st) + installs prevWeekApp \<rparr>,
                totalRevenue = \<lparr>
                  day = day (totalRevenue st) + revenue app,
                  prevDay = prevDay (totalRevenue st) + revenue prevDayApp,
                  prevWeek = prevWeek (totalRevenue st) + revenue prevWeekApp \<rparr>,
                attachments = attachments st @
                  [\<lparr> fallback = [],
                      color = (if isGood then ''good'' else ''danger''),
                      author_name = Some (title app),
                      author_icon = Some (icon app),
                      pretext = None,
                      att_title = None,
                      att_fields = createFields S (installs app) (revenue app)
                        (installs prevDayApp) (revenue prevDayApp)
                        (installs prevWeekApp) (revenue prevWeekApp) \<rparr>] \<rparr>)))))"

text \<open>
  \<open>dateStr\<close> is \<^verbatim>\<open>moment(date).format('MMMM D, YYYY')\<close>. \<^verbatim>\<open>Object.keys(null)\<close> throws
  a \<^verbatim>\<open>TypeError\<close>.
\<close>

definition buildSlackMessage ::
  "(rat \<Rightarrow> string) \<Rightarrow> (string \<Rightarrow> string \<Rightarrow> int) \<Rightarrow> sales \<Rightarrow> string \<Rightarrow> failure + message" where
  "buildSlackMessage S lc sales dateStr =
     (case day sales of
        None \<Rightarrow> Inl TypeError
      | Some d \<Rightarrow>
          if length (Object_keys d) = 0 then Inr (MsgText (''No app sales on '' @ dateStr))
          else
            andThen (Array_sort (titleCompare lc d) (Object_keys d)) (\<lambda>appIDs.
            andThen (forEach (appSection S sales) appIDs
                       \<lparr> totalInstalls = \<lparr> day = 0, prevDay = 0, prevWeek = 0 \<rparr>,
                         totalRevenue = \<lparr> day = 0, prevDay = 0, prevWeek = 0 \<rparr>,
                         attachments = [] \<rparr>) (\<lambda>st.
              (let atts = (if length (attachments st) > MAX_ATTACHMENTS
                           then take MAX_ATTACHMENTS (attachments st) else attachments st);
                   isTotalGood = (if day (totalRevenue st) \<noteq> 0
                                  then day (totalRevenue st) > prevDay (totalRevenue st)
                                  else day (totalInstalls st) > prevDay (totalInstalls st));
                   text = ''Daily Analytics for '' @ dateStr
               in Inr (MsgAttachments
                    (\<lparr> fallback = text,
                        color = (if isTotalGood then ''good'' else ''danger''),
                        author_name = None,
                        author_icon = None,
                        pretext = Some text,
                        att_title = Some ''Totals'',
                        att_fields = createFields S
                          (day (totalInstalls st)) (day (totalRevenue st))
                          (prevDay (totalInstalls st)) (prevDay (totalRevenue st))
                          (prevWeek (totalInstalls st)) (prevWeek (totalRevenue st)) \<rparr>
                     # atts))))))"

subsection \<open>Reading one row, as the specification names its parts\<close>

text \<open>
  The values \<^verbatim>\<open>parseSalesReport\<close> reads from a data row, under the names the
  specification uses: the app identifier as a property key, the units, the local
  proceeds, the rate of the row's currency, and the two product classes.
\<close>

definition rowKey :: "columns \<Rightarrow> row \<Rightarrow> string" where
  "rowKey c r = String_of (row_at r (idxAppID c))"

definition rowUnits :: "(string \<Rightarrow> rat option) \<Rightarrow> columns \<Rightarrow> row \<Rightarrow> rat" where
  "rowUnits N c r = orZero (Number N (row_at r (idxUnits c)))"

definition rowProceeds :: "(string \<Rightarrow> rat option) \<Rightarrow> columns \<Rightarrow> row \<Rightarrow> rat" where
  "rowProceeds N c r = orZero (Number N (row_at r (idxRevenue c)))"

definition rowRate :: "rates \<Rightarrow> columns \<Rightarrow> row \<Rightarrow> rat option" where
  "rowRate rts c r = rts (String_of (row_at r (idxCurrency c)))"

definition isInstallRow :: "columns \<Rightarrow> row \<Rightarrow> bool" where
  "isInstallRow c r = has INSTALL_TYPES (row_at r (idxType c))"

definition isIAPRow :: "columns \<Rightarrow> row \<Rightarrow> bool" where
  "isIAPRow c r = has IAP_TYPES (row_at r (idxType c))"

definition rowUSD :: "(string \<Rightarrow> rat option) \<Rightarrow> rates \<Rightarrow> columns \<Rightarrow> row \<Rightarrow> rat" where
  "rowUSD N rts c r =
     (case rowRate rts c r of
        Some fxRate \<Rightarrow> rowUnits N c r * rowProceeds N c r / fxRate
      | None \<Rightarrow> 0)"

text \<open>
  The installs and the revenue a mapping holds under a key, 0 where it has no record;
  the rows that count towards them; and the rows on which \<^verbatim>\<open>1 / fxRate\<close> is finite.
\<close>

definition installsOf :: "apps \<Rightarrow> string \<Rightarrow> rat" where
  "installsOf m k = (case map_of m k of Some a \<Rightarrow> installs a | None \<Rightarrow> 0)"

definition revenueOf :: "apps \<Rightarrow> string \<Rightarrow> rat" where
  "revenueOf m k = (case map_of m k of Some a \<Rightarrow> revenue a | None \<Rightarrow> 0)"

definition countedInstall :: "rates \<Rightarrow> columns \<Rightarrow> string \<Rightarrow> row \<Rightarrow> bool" where
  "countedInstall rts c k r \<longleftrightarrow> rowKey c r = k \<and> isInstallRow c r \<and> rowRate rts c r \<noteq> None"

definition countedRevenue :: "rates \<Rightarrow> columns \<Rightarrow> string \<Rightarrow> row \<Rightarrow> bool" where
  "countedRevenue rts c k r \<longleftrightarrow>
     rowKey c r = k \<and> (isInstallRow c r \<or> isIAPRow c r) \<and> rowRate rts c r \<noteq> None"

definition finiteRow :: "rates \<Rightarrow> columns \<Rightarrow> row \<Rightarrow> bool" where
  "finiteRow rts c r \<longleftrightarrow> \<not> (rowRate rts c r = Some 0 \<and> (isInstallRow c r \<or> isIAPRow c r))"

text \<open>The column names that \<^verbatim>\<open>parseSalesReport\<close> looks up in the header.\<close>

definition requiredColumns :: "string list" where
  "requiredColumns = [''Apple Identifier'', ''Country Code'', ''Currency of Proceeds'', ''Title'',
     ''Units'', ''Developer Proceeds'', ''Product Type Identifier'']"

subsection \<open>The formats as the specification words them\<close>

text \<open>
  Thousands grouping: the last three digits are split off by a comma, and what stands
  before them is grouped in the same way.
\<close>

function spec_group :: "string \<Rightarrow> string" where
  "spec_group ds =
     (if length ds \<le> 3 then ds
      else spec_group (take (length ds - 3) ds) @ '','' @ drop (length ds - 3) ds)"
  by pat_completeness auto
termination
  by (relation "measure length") auto

declare spec_group.simps [simp del]

text \<open>
  A non-negative number with \<open>f\<close> decimal places: rounded to the nearest multiple of
  \<open>10^-f\<close> (a tie goes up), the integer part grouped in threes, then the point and the
  \<open>f\<close> decimal digits.
\<close>

fun lastDigits :: "nat \<Rightarrow> nat \<Rightarrow> string" where
  "lastDigits 0 n = []"
| "lastDigits (Suc f) n = lastDigits f (n div 10) @ [digit (n mod 10)]"

definition spec_decimals :: "nat \<Rightarrow> rat \<Rightarrow> string" where
  "spec_decimals f y =
     (let n = nat \<lfloor>y * 10 ^ f + 1 / 2\<rfloor>
      in spec_group (digitsOf (n div 10 ^ f))
         @ (if f = 0 then [] else ''.'' @ lastDigits f n))"

definition spec_formatCurrency :: "rat \<Rightarrow> string" where
  "spec_formatCurrency v =
     (if v < 0 then ''-'' else []) @ ''$''
     @ (if \<bar>v\<bar> \<ge> 100 then spec_decimals 0 \<bar>v\<bar> else spec_decimals 2 \<bar>v\<bar>)"

definition spec_formatPercent :: "rat \<Rightarrow> string" where
  "spec_formatPercent p =
     (if p \<ge> 0 then ''+'' else ''-'') @ spec_decimals 1 \<bar>p * 100\<bar> @ ''%''"


text \<open>The positions of the commas in a run of digits, counted from its end.\<close>

fun commasByCount :: "string \<Rightarrow> string" where
  "commasByCount [] = []"
| "commasByCount (d # ds) =
     (if length (d # ds) mod 3 = 0 then CHR '','' # d # commasByCount ds
      else d # commasByCount ds)"

subsection \<open>The message as the specification words it\<close>

text \<open>
  \<^verbatim>\<open>mapping[appID] || { installs: 0, revenue: 0 }\<close>; the good/bad rule in the words of
  the specification; and the section of an app with given comparison records.
\<close>

definition comparisonOf :: "apps \<Rightarrow> string \<Rightarrow> app" where
  "comparisonOf m k = (case map_of m k of Some a \<Rightarrow> a | None \<Rightarrow> zeroApp)"

definition spec_isGood :: "app \<Rightarrow> app \<Rightarrow> bool" where
  "spec_isGood a p \<longleftrightarrow>
     (revenue a \<noteq> 0 \<and> revenue a > revenue p) \<or> (revenue a = 0 \<and> installs a > installs p)"

definition sectionOf :: "(rat \<Rightarrow> string) \<Rightarrow> app \<Rightarrow> app \<Rightarrow> app \<Rightarrow> attachment" where
  "sectionOf S a p w =
     \<lparr> fallback = [],
       color = (if spec_isGood a p then ''good'' else ''danger''),
       author_name = Some (title a),
       author_icon = Some (icon a),
       pretext = None,
       att_title = None,
       att_fields = createFields S (installs a) (revenue a) (installs p) (revenue p)
                      (installs w) (revenue w) \<rparr>"

text \<open>
  The section of the app under a key, its comparison records looked up in the two
  mappings; a total over a list of keys; a sum over the entries of a mapping; and the
  Totals section for given totals of installs and revenue.
\<close>

definition sectionFor :: "(rat \<Rightarrow> string) \<Rightarrow> apps \<Rightarrow> apps \<Rightarrow> apps \<Rightarrow> string \<Rightarrow> attachment" where
  "sectionFor S d pd pw k =
     sectionOf S (comparisonOf d k) (comparisonOf pd k) (comparisonOf pw k)"

text \<open>A value that is a string, as \<^verbatim>\<open>title.localeCompare\<close> needs the titles to be.\<close>

definition isStr :: "jsval \<Rightarrow> bool" where
  "isStr v = (case v of Str s \<Rightarrow> True | _ \<Rightarrow> False)"

definition totalOver :: "(app \<Rightarrow> rat) \<Rightarrow> apps \<Rightarrow> string list \<Rightarrow> rat" where
  "totalOver f m ks = sum_list (map (\<lambda>k. f (comparisonOf m k)) ks)"

definition sumOver :: "(string \<Rightarrow> app \<Rightarrow> rat) \<Rightarrow> apps \<Rightarrow> rat" where
  "sumOver f d = sum_list (map (\<lambda>(k, a). f k a) d)"

definition totalsOf :: "(rat \<Rightarrow> string) \<Rightarrow> string \<Rightarrow> rat periods \<Rightarrow> rat periods \<Rightarrow> attachment" where
  "totalsOf S dateStr ti tr =
     \<lparr> fallback = ''Daily Analytics for '' @ dateStr,
       color = (if (day tr \<noteq> 0 \<and> day tr > prevDay tr) \<or> (day tr = 0 \<and> day ti > prevDay ti)
                then ''good'' else ''danger''),
       author_name = None,
       author_icon = None,
       pretext = Some (''Daily Analytics for '' @ dateStr),
       att_title = Some ''Totals'',
       att_fields = createFields S (day ti) (day tr) (prevDay ti) (prevDay tr)
                      (prevWeek ti) (prevWeek tr) \<rparr>"

subsection \<open>Inputs of the examples\<close>

text \<open>
  \<^verbatim>\<open>Number\<close> on a string, as the examples have it: an optional minus sign, digits,
  and optionally a point and more digits denote their decimal value; anything else is
  \<^verbatim>\<open>NaN\<close> here.
\<close>

definition decimalLiteral :: "string \<Rightarrow> rat option" where
  "decimalLiteral s =
     (let (neg, body) = (case s of CHR ''-'' # t \<Rightarrow> (True, t) | _ \<Rightarrow> (False, s));
          ip = takeWhile isDigit body;
          rest = dropWhile isDigit body;
          fp = (case rest of CHR ''.'' # t \<Rightarrow> t | _ \<Rightarrow> [])
      in if ip = [] \<or> \<not> list_all isDigit fp \<or> (rest \<noteq> [] \<and> hd rest \<noteq> CHR ''.'') \<or> (rest \<noteq> [] \<and> fp = [])
         then None
         else Some ((if neg then - 1 else 1) *
                (of_nat (digitsValue 0 ip) + of_nat (digitsValue 0 fp) / 10 ^ length fp)))"

text \<open>
  The rendering of integers that the examples use for \<^verbatim>\<open>Number.prototype.toString\<close>:
  on an integer below \<open>10^21\<close> in size, \<^verbatim>\<open>toString\<close> gives its decimal digits.
\<close>

definition integerString :: "rat \<Rightarrow> string" where
  "integerString x = (if x < 0 then ''-'' else []) @ digitsOf (nat \<lfloor>\<bar>x\<bar>\<rfloor>)"

text \<open>
  \<^verbatim>\<open>localeCompare\<close> as the examples have it: the order of the character codes.
\<close>

fun codeCompare :: "string \<Rightarrow> string \<Rightarrow> int" where
  "codeCompare [] [] = 0"
| "codeCompare [] (y # ys) = - 1"
| "codeCompare (x # xs) [] = 1"
| "codeCompare (x # xs) (y # ys) =
     (if (of_char x :: nat) < of_char y then - 1
      else if (of_char x :: nat) > of_char y then 1
      else codeCompare xs ys)"

definition exHeader :: row where
  "exHeader = map Str [''Provider'', ''Title'', ''Apple Identifier'', ''Units'',
     ''Developer Proceeds'', ''Currency of Proceeds'', ''Country Code'',
     ''Product Type Identifier'']"

definition exRates :: rates where
  "exRates = map_of [(''USD'', 1), (''JPY'', 100)]"

definition exRows :: report where
  "exRows =
    [ [Str ''APPLE'', Str ''Alpha'', Str ''1001'', Str ''3'', Str ''0.70'', Str ''USD'', Str ''US'', Str ''1''],
      [Str ''APPLE'', Str ''Alpha'', Str ''1001'', Str ''2'', Str ''150'', Str ''JPY'', Str ''JP'', Str ''IA1''],
      [Str ''APPLE'', Str ''Beta'', Str ''1002'', Str ''5'', Null, Str ''USD'', Str ''US'', Str ''1F''],
      [Str ''APPLE'', Str ''Alpha'', Str ''1001'', Str ''4'', Str ''9'', Str ''USD'', Str ''US'', Str ''7''] ]"

definition exHeaderNoUnits :: row where
  "exHeaderNoUnits = map Str [''Title'', ''Apple Identifier'', ''Developer Proceeds'',
     ''Currency of Proceeds'', ''Country Code'', ''Product Type Identifier'']"


definition exUnknownCurrencyRow :: row where
  "exUnknownCurrencyRow = [Str ''APPLE'', Str ''Gamma'', Str ''1003'', Str ''9'', Str ''5'', Str ''XXX'',
     Str ''US'', Str ''1'']"

definition exNoUnitsRow :: row where
  "exNoUnitsRow = [Str ''Alpha'', Str ''1001'', Str ''0.70'', Str ''USD'', Str ''US'', Str ''1'']"

definition exReportText :: string where
  "exReportText =
     ''Title'' @ [CHR 0x09] @ ''Apple Identifier'' @ [CHR 0x09] @ ''Units'' @ [CHR 0x09]
       @ ''Developer Proceeds'' @ [CHR 0x09] @ ''Currency of Proceeds'' @ [CHR 0x09]
       @ ''Country Code'' @ [CHR 0x09] @ ''Product Type Identifier'' @ [CHR 0x0A]
     @ ''Alpha'' @ [CHR 0x09] @ ''1001'' @ [CHR 0x09] @ ''3'' @ [CHR 0x09] @ ''0.70''
       @ [CHR 0x09] @ ''USD'' @ [CHR 0x09] @ ''US'' @ [CHR 0x09] @ ''1'' @ [CHR 0x0A]"

definition exReporter :: "int option \<Rightarrow> int option \<Rightarrow> int \<Rightarrow> report_outcome" where
  "exReporter codeDay codeWeek date =
     (if date = 100 then ReportText exReportText
      else if date = 99 then ReportRejected codeDay
      else ReportRejected codeWeek)"

definition exApp :: "string \<Rightarrow> rat \<Rightarrow> rat \<Rightarrow> app" where
  "exApp t i r = \<lparr> title = Str t, country = Str ''US'', icon = Null, installs = i, revenue = r \<rparr>"

text \<open>\<open>n\<close> apps of one install and no revenue each, and a snapshot without comparison data.\<close>

definition exManyApps :: "nat \<Rightarrow> apps" where
  "exManyApps n = map (\<lambda>i. (digitsOf (1000 + i), exApp (''App '' @ digitsOf i) 1 0)) [0..<n]"

definition exManySales :: "nat \<Rightarrow> sales" where
  "exManySales n = \<lparr> day = Some (exManyApps n), prevDay = Some [], prevWeek = Some [] \<rparr>"

text \<open>One app with 100 installs and no revenue, after 80 installs the day before.\<close>

definition exOneAppSales :: sales where
  "exOneAppSales = \<lparr> day = Some [(''1002'', exApp ''Beta'' 100 0)],
                     prevDay = Some [(''1002'', exApp ''Beta'' 80 0)],
                     prevWeek = Some [] \<rparr>"

section \<open>Properties of the parser\<close>

lemma parseRow_cases:
  "parseRow N rts c m r =
     (let k = rowKey c r;
          a = (case map_of m k of Some a \<Rightarrow> a
               | None \<Rightarrow> \<lparr> title = row_at r (idxTitle c), country = row_at r (idxCountry c),
                             icon = Null, installs = 0, revenue = 0 \<rparr>)
      in if \<not> finiteRow rts c r then Inl NotFinite
         else Inr (AList.update k
                (a\<lparr> installs := installs a + (if countedInstall rts c k r then rowUnits N c r else 0),
                    revenue := revenue a + (if countedRevenue rts c k r then rowUSD N rts c r else 0) \<rparr>) m))"
  unfolding parseRow_def rowKey_def finiteRow_def countedInstall_def countedRevenue_def rowUSD_def
    rowRate_def rowUnits_def rowProceeds_def isInstallRow_def isIAPRow_def Let_def
  by (auto split: option.splits simp: update_triv AList.update_conv')

lemma installsOf_parseRow:
  "parseRow N rts c m r = Inr m' \<Longrightarrow>
   installsOf m' k = installsOf m k + (if countedInstall rts c k r then rowUnits N c r else 0)"
  by (auto simp: parseRow_cases Let_def installsOf_def update_conv' countedInstall_def
      split: if_splits option.splits)

lemma revenueOf_parseRow:
  "parseRow N rts c m r = Inr m' \<Longrightarrow>
   revenueOf m' k = revenueOf m k + (if countedRevenue rts c k r then rowUSD N rts c r else 0)"
  by (auto simp: parseRow_cases Let_def revenueOf_def update_conv' countedRevenue_def
      split: if_splits option.splits)

lemma parseRow_update:
  "parseRow N rts c m r = Inr m' \<Longrightarrow> \<exists>a. m' = AList.update (rowKey c r) a m"
  by (auto simp: parseRow_cases Let_def split: if_splits)

lemma keys_parseRow:
  "parseRow N rts c m r = Inr m' \<Longrightarrow> fst ` set m' = insert (rowKey c r) (fst ` set m)"
proof -
  assume "parseRow N rts c m r = Inr m'"
  then obtain a where "m' = AList.update (rowKey c r) a m"
    using parseRow_update by blast
  then have "map fst m' =
      (if rowKey c r \<in> set (map fst m) then map fst m else map fst m @ [rowKey c r])"
    by (simp only: update_keys)
  then have "set (map fst m') = insert (rowKey c r) (set (map fst m))"
    by (auto split: if_splits)
  then show ?thesis by simp
qed


lemma parseRow_finite:
  "finiteRow rts c r \<Longrightarrow> \<exists>m'. parseRow N rts c m r = Inr m'"
  by (simp add: parseRow_cases Let_def)

lemma forEach_parseRow_finite:
  "\<forall>r\<in>set rows. finiteRow rts c r \<Longrightarrow> \<exists>m'. forEach (parseRow N rts c) rows m = Inr m'"
proof (induction rows arbitrary: m)
  case Nil
  then show ?case by simp
next
  case (Cons r rows)
  then obtain m1 where "parseRow N rts c m r = Inr m1"
    using parseRow_finite [of rts c r N m] by auto
  with Cons show ?case by simp
qed

lemma installsOf_forEach:
  "forEach (parseRow N rts c) rows m = Inr m' \<Longrightarrow>
   installsOf m' k =
     installsOf m k + sum_list (map (rowUnits N c) (filter (countedInstall rts c k) rows))"
proof (induction rows arbitrary: m)
  case Nil
  then show ?case by simp
next
  case (Cons r rows)
  then obtain m1 where step: "parseRow N rts c m r = Inr m1"
    and rest: "forEach (parseRow N rts c) rows m1 = Inr m'"
    by (auto split: sum.splits)
  show ?case
    using Cons.IH [OF rest] installsOf_parseRow [OF step, of k] by simp
qed

lemma revenueOf_forEach:
  "forEach (parseRow N rts c) rows m = Inr m' \<Longrightarrow>
   revenueOf m' k =
     revenueOf m k + sum_list (map (rowUSD N rts c) (filter (countedRevenue rts c k) rows))"
proof (induction rows arbitrary: m)
  case Nil
  then show ?case by simp
next
  case (Cons r rows)
  then obtain m1 where step: "parseRow N rts c m r = Inr m1"
    and rest: "forEach (parseRow N rts c) rows m1 = Inr m'"
    by (auto split: sum.splits)
  show ?case
    using Cons.IH [OF rest] revenueOf_parseRow [OF step, of k] by simp
qed

lemma keys_forEach:
  "forEach (parseRow N rts c) rows m = Inr m' \<Longrightarrow>
   fst ` set m' = fst ` set m \<union> rowKey c ` set rows"
proof (induction rows arbitrary: m)
  case Nil
  then show ?case by simp
next
  case (Cons r rows)
  then obtain m1 where step: "parseRow N rts c m r = Inr m1"
    and rest: "forEach (parseRow N rts c) rows m1 = Inr m'"
    by (auto split: sum.splits)
  show ?case
    using Cons.IH [OF rest] keys_parseRow [OF step] by auto
qed



lemma parseSalesReport_rows:
  "parseSalesReport N (Some (header # rows)) rts =
     forEach (parseRow N rts (resolveColumns header)) rows []"
  by (cases rows) (simp_all add: parseSalesReport_def)





lemma finiteRow_nonzero: "rowRate rts c r \<noteq> Some 0 \<Longrightarrow> finiteRow rts c r"
  by (simp add: finiteRow_def)

subsection \<open>C1: the parsed figures are the per-app sums\<close>




subsection \<open>C3: a column the header lacks\<close>

lemma indexOf_absent: "v \<notin> set xs \<Longrightarrow> indexOf xs v = - 1"
  by (induction xs) (auto simp: Let_def)

lemma indexOf_range: "- 1 \<le> indexOf xs v \<and> indexOf xs v < int (length xs)"
  by (induction xs) (auto simp: Let_def)

lemma indexOf_present: "v \<in> set xs \<Longrightarrow> 0 \<le> indexOf xs v \<and> xs ! nat (indexOf xs v) = v"
  by (induction xs) (auto simp: Let_def nat_add_distrib)

lemma row_at_minus_one: "row_at r (- 1) = Undefined"
  by (simp add: row_at_def)

lemma forEach_nonempty:
  "forEach (parseRow N rts c) rows m = Inr m' \<Longrightarrow> rows \<noteq> [] \<Longrightarrow> m' \<noteq> []"
  using keys_forEach [of N rts c rows m m'] by (cases rows) auto

text \<open>
  C3, as the code has it. \<^verbatim>\<open>parseSalesReport\<close> never inspects the indices that
  \<^verbatim>\<open>indexOf\<close> returns. When the header lacks a required column, that index is \<open>-1\<close>,
  every row reads \<^verbatim>\<open>undefined\<close> there, and the parse goes on: for a report with at
  least one data row (and no rate of zero in reach) it returns a non-empty mapping
  whose keys are the app identifiers read from the rows. Without the units or the
  proceeds column those count as 0 in every row; without the product type no row is in
  either class; without the currency every row has the rate of \<^verbatim>\<open>rates['undefined']\<close>;
  without the app identifier every row is filed under the key \<^verbatim>\<open>undefined\<close>.
\<close>

theorem missing_column_no_failure:
  assumes "n \<in> set requiredColumns" and "Str n \<notin> set header" and "rows \<noteq> []"
    and "\<forall>r\<in>set rows. rowRate rts (resolveColumns header) r \<noteq> Some 0"
  shows "\<exists>m. parseSalesReport N (Some (header # rows)) rts = Inr m \<and> m \<noteq> []
           \<and> fst ` set m = rowKey (resolveColumns header) ` set rows
           \<and> (\<forall>r. row_at r (indexOf header (Str n)) = Undefined)
           \<and> (\<forall>r. (n = ''Units'' \<longrightarrow> rowUnits N (resolveColumns header) r = 0)
                  \<and> (n = ''Developer Proceeds'' \<longrightarrow> rowProceeds N (resolveColumns header) r = 0)
                  \<and> (n = ''Product Type Identifier'' \<longrightarrow>
                         \<not> isInstallRow (resolveColumns header) r
                       \<and> \<not> isIAPRow (resolveColumns header) r)
                  \<and> (n = ''Currency of Proceeds'' \<longrightarrow>
                         rowRate rts (resolveColumns header) r = rts ''undefined'')
                  \<and> (n = ''Apple Identifier'' \<longrightarrow>
                         rowKey (resolveColumns header) r = ''undefined''))"
proof -
  have "\<forall>r\<in>set rows. finiteRow rts (resolveColumns header) r"
    using assms(4) by (simp add: finiteRow_nonzero)
  then obtain m where run: "forEach (parseRow N rts (resolveColumns header)) rows [] = Inr m"
    using forEach_parseRow_finite by blast
  moreover have "m \<noteq> []"
    using forEach_nonempty [OF run assms(3)] .
  moreover have "fst ` set m = rowKey (resolveColumns header) ` set rows"
    using keys_forEach [OF run] by simp
  moreover have und: "row_at r (indexOf header (Str n)) = Undefined" for r
    using assms(2) by (simp add: indexOf_absent row_at_minus_one)
  moreover have "(n = ''Units'' \<longrightarrow> rowUnits N (resolveColumns header) r = 0)
      \<and> (n = ''Developer Proceeds'' \<longrightarrow> rowProceeds N (resolveColumns header) r = 0)
      \<and> (n = ''Product Type Identifier'' \<longrightarrow>
             \<not> isInstallRow (resolveColumns header) r \<and> \<not> isIAPRow (resolveColumns header) r)
      \<and> (n = ''Currency of Proceeds'' \<longrightarrow>
             rowRate rts (resolveColumns header) r = rts ''undefined'')
      \<and> (n = ''Apple Identifier'' \<longrightarrow> rowKey (resolveColumns header) r = ''undefined'')" for r
    using und [of r]
    by (auto simp: rowUnits_def rowProceeds_def isInstallRow_def isIAPRow_def rowRate_def
        rowKey_def resolveColumns_def)
  ultimately show ?thesis
    by (simp add: parseSalesReport_rows)
qed


text \<open>
  The claim as stated, that such a report makes the parse fail, is false: a header
  without \<^verbatim>\<open>Units\<close> and one data row give a mapping with one record, whose units
  were read as 0.
\<close>

theorem missing_column_counterexample:
  "Str ''Units'' \<notin> set exHeaderNoUnits
   \<and> parseSalesReport decimalLiteral (Some [exHeaderNoUnits, exNoUnitsRow]) exRates =
       Inr [(''1001'', \<lparr>title = Str ''Alpha'', country = Str ''US'', icon = Null,
                        installs = 0, revenue = 0\<rparr>)]"
  by code_simp

theorem missing_column_no_failure_witness:
  "''Units'' \<in> set requiredColumns \<and> Str ''Units'' \<notin> set exHeaderNoUnits
   \<and> [exNoUnitsRow] \<noteq> []
   \<and> list_all (\<lambda>r. rowRate exRates (resolveColumns exHeaderNoUnits) r \<noteq> Some 0) [exNoUnitsRow]
   \<and> (\<exists>m. parseSalesReport decimalLiteral (Some [exHeaderNoUnits, exNoUnitsRow]) exRates = Inr m
          \<and> m \<noteq> [] \<and> fst ` set m = {''1001''})
   \<and> row_at exNoUnitsRow (indexOf exHeaderNoUnits (Str ''Units'')) = Undefined
   \<and> rowUnits decimalLiteral (resolveColumns exHeaderNoUnits) exNoUnitsRow = 0"
proof -
  have h1: "''Units'' \<in> set requiredColumns" by code_simp
  have h2: "Str ''Units'' \<notin> set exHeaderNoUnits" by code_simp
  have h3: "[exNoUnitsRow] \<noteq> []" by simp
  have h4: "\<forall>r\<in>set [exNoUnitsRow]. rowRate exRates (resolveColumns exHeaderNoUnits) r \<noteq> Some 0"
    by code_simp
  have k: "rowKey (resolveColumns exHeaderNoUnits) exNoUnitsRow = ''1001''"
    by code_simp
  show ?thesis
    using missing_column_no_failure [OF h1 h2 h3 h4, of decimalLiteral] h1 h2 h4
    by (auto simp: k)
qed

subsection \<open>C8: a row whose currency has no rate\<close>

text \<open>
  C8. A data row whose currency has no entry in the rate table does not make the parse
  fail and adds nothing: the parse of the report returns a mapping, the parse of the
  report without that row returns a mapping too, and the two hold the same installs
  and the same revenue under every app identifier (an absent record counting as 0).
  The row's app identifier is a key of the returned mapping all the same.
\<close>

theorem unresolved_currency_row_skipped:
  assumes unresolved: "rowRate rts (resolveColumns header) r = None"
    and others: "\<forall>x\<in>set (pre @ post). rowRate rts (resolveColumns header) x \<noteq> Some 0"
  shows "\<exists>m m0. parseSalesReport N (Some (header # pre @ r # post)) rts = Inr m
           \<and> parseSalesReport N (Some (header # pre @ post)) rts = Inr m0
           \<and> rowKey (resolveColumns header) r \<in> fst ` set m
           \<and> (\<forall>k. installsOf m k = installsOf m0 k \<and> revenueOf m k = revenueOf m0 k)"
proof -
  define c where "c = resolveColumns header"
  have fin0: "\<forall>x\<in>set (pre @ post). finiteRow rts c x"
    using others by (simp add: finiteRow_nonzero c_def)
  have finr: "finiteRow rts c r"
    using unresolved by (simp add: finiteRow_def c_def)
  have fin: "\<forall>x\<in>set (pre @ r # post). finiteRow rts c x"
    using fin0 finr by auto
  obtain m where run: "forEach (parseRow N rts c) (pre @ r # post) [] = Inr m"
    using forEach_parseRow_finite [OF fin] by blast
  obtain m0 where run0: "forEach (parseRow N rts c) (pre @ post) [] = Inr m0"
    using forEach_parseRow_finite [OF fin0] by blast
  have ni: "\<not> countedInstall rts c k r" and nr: "\<not> countedRevenue rts c k r" for k
    using unresolved by (simp_all add: countedInstall_def countedRevenue_def c_def)
  have "installsOf m k = installsOf m0 k" for k
    using installsOf_forEach [OF run, of k] installsOf_forEach [OF run0, of k]
    by (simp add: ni)
  moreover have "revenueOf m k = revenueOf m0 k" for k
    using revenueOf_forEach [OF run, of k] revenueOf_forEach [OF run0, of k]
    by (simp add: nr)
  moreover have "rowKey c r \<in> fst ` set m"
    using keys_forEach [OF run] by simp
  ultimately show ?thesis
    using run run0 unfolding parseSalesReport_rows c_def [symmetric] by blast
qed

theorem unresolved_currency_row_skipped_witness:
  "rowRate exRates (resolveColumns exHeader) exUnknownCurrencyRow = None
   \<and> list_all (\<lambda>x. rowRate exRates (resolveColumns exHeader) x \<noteq> Some 0) (exRows @ [])
   \<and> (\<exists>m. parseSalesReport decimalLiteral (Some (exHeader # exRows @ exUnknownCurrencyRow # [])) exRates
            = Inr m
          \<and> ''1003'' \<in> fst ` set m
          \<and> installsOf m ''1003'' = 0 \<and> revenueOf m ''1003'' = 0
          \<and> installsOf m ''1001'' = 3 \<and> revenueOf m ''1001'' = 51 / 10)"
proof -
  have h1: "rowRate exRates (resolveColumns exHeader) exUnknownCurrencyRow = None"
    by code_simp
  have h2: "\<forall>x\<in>set (exRows @ []). rowRate exRates (resolveColumns exHeader) x \<noteq> Some 0"
    by code_simp
  have k: "rowKey (resolveColumns exHeader) exUnknownCurrencyRow = ''1003''"
    by code_simp
  have run0: "parseSalesReport decimalLiteral (Some (exHeader # exRows @ [])) exRates =
      Inr [(''1001'', \<lparr>title = Str ''Alpha'', country = Str ''US'', icon = Null,
                      installs = 3, revenue = 51 / 10\<rparr>),
           (''1002'', \<lparr>title = Str ''Beta'', country = Str ''US'', icon = Null,
                      installs = 5, revenue = 0\<rparr>)]"
    by code_simp
  from unresolved_currency_row_skipped [OF h1 h2, of decimalLiteral] obtain m m0 where
    m: "parseSalesReport decimalLiteral (Some (exHeader # exRows @ exUnknownCurrencyRow # [])) exRates
          = Inr m"
    and m0: "parseSalesReport decimalLiteral (Some (exHeader # exRows @ [])) exRates = Inr m0"
    and key: "rowKey (resolveColumns exHeader) exUnknownCurrencyRow \<in> fst ` set m"
    and same: "\<And>k. installsOf m k = installsOf m0 k \<and> revenueOf m k = revenueOf m0 k"
    by blast
  from m0 run0 have m0eq: "m0 = [(''1001'', \<lparr>title = Str ''Alpha'', country = Str ''US'',
        icon = Null, installs = 3, revenue = 51 / 10\<rparr>),
      (''1002'', \<lparr>title = Str ''Beta'', country = Str ''US'', icon = Null,
        installs = 5, revenue = 0\<rparr>)]"
    by simp
  have "installsOf m0 ''1003'' = 0" "revenueOf m0 ''1003'' = 0"
    "installsOf m0 ''1001'' = 3" "revenueOf m0 ''1001'' = 51 / 10"
    by (simp_all add: m0eq installsOf_def revenueOf_def)
  then show ?thesis
    using h1 h2 m key same by (auto simp: k list_all_iff)
qed

subsection \<open>C9: the sign of the installs accumulator\<close>





section \<open>Properties of the aggregator\<close>

lemma getDailySales_not_published:
  "getReport date = ReportRejected (Some n) \<Longrightarrow> n \<in> set NO_REPORT_ERRORS \<Longrightarrow>
   getDailySales getReport date = Inr None"
  by (simp add: getDailySales_def)

lemma getDailySales_no_sales:
  "getReport date = ReportRejected (Some ERR_NO_SALES) \<Longrightarrow>
   getDailySales getReport date = Inr (Some [])"
  by (simp add: getDailySales_def NO_REPORT_ERRORS_def ERR_NO_SALES_def)

lemma parseSalesReport_null: "parseSalesReport N None rts = Inl TypeError"
  by (simp add: parseSalesReport_def)

lemma parseSalesReport_no_rows: "parseSalesReport N (Some []) rts = Inr []"
  by (simp add: parseSalesReport_def)

lemma Object_keys_mset: "mset (Object_keys m) = mset (map fst m)"
  by (simp add: Object_keys_def)

lemma Object_keys_length: "length (Object_keys m) = length m"
  using arg_cong [OF Object_keys_mset [of m], of size] by simp

lemma comparison_no_sales_is_empty:
  assumes "getDailySales getReport date = Inr (Some rep)"
    and "getExchangeRates ratesResp = Inr rts"
    and "parseSalesReport N (Some rep) rts = Inr d" and "d \<noteq> []"
    and "getReport (date - 1) = ReportRejected (Some ERR_NO_SALES)"
    and "getReport (date - 7) = ReportRejected (Some ERR_NO_SALES)"
  shows "getSalesForDate N getReport ratesResp date =
           Inr (Some \<lparr> day = Some d, prevDay = Some [], prevWeek = Some [] \<rparr>)"
  using assms
  by (simp add: getSalesForDate_def getDailySales_no_sales parseSalesReport_no_rows
      Object_keys_length)

text \<open>
  C2. The claim holds for a comparison date without sales (error 213) and fails for a
  comparison report that is not published yet (errors 210 to 212): \<^verbatim>\<open>getDailySales\<close>
  turns those into \<^verbatim>\<open>null\<close>, \<^verbatim>\<open>getSalesForDate\<close> checks for \<^verbatim>\<open>null\<close> only on the
  current day's report, and \<^verbatim>\<open>parseSalesReport(null, rates)\<close> throws on
  \<^verbatim>\<open>report.length\<close>. With sales on the current day and the prior day's report not
  published, the run ends in a \<^verbatim>\<open>TypeError\<close>.
\<close>

theorem comparison_not_published_raises:
  assumes "getDailySales getReport date = Inr (Some rep)"
    and "getExchangeRates ratesResp = Inr rts"
    and "parseSalesReport N (Some rep) rts = Inr d" and "d \<noteq> []"
    and "getReport (date - 1) = ReportRejected (Some n)" and "n \<in> set NO_REPORT_ERRORS"
  shows "getSalesForDate N getReport ratesResp date = Inl TypeError"
  using assms
  by (simp add: getSalesForDate_def getDailySales_not_published parseSalesReport_null
      Object_keys_length)

lemma comparison_week_not_published_raises:
  assumes "getDailySales getReport date = Inr (Some rep)"
    and "getExchangeRates ratesResp = Inr rts"
    and "parseSalesReport N (Some rep) rts = Inr d" and "d \<noteq> []"
    and "getDailySales getReport (date - 1) = Inr rep1"
    and "parseSalesReport N rep1 rts = Inr pd"
    and "getReport (date - 7) = ReportRejected (Some n)" and "n \<in> set NO_REPORT_ERRORS"
  shows "getSalesForDate N getReport ratesResp date = Inl TypeError"
  using assms
  by (simp add: getSalesForDate_def getDailySales_not_published parseSalesReport_null
      Object_keys_length)

theorem comparison_not_published_raises_witness:
  "getDailySales (exReporter (Some 210) (Some 213)) 100 =
     Inr (Some [map Str [''Title'', ''Apple Identifier'', ''Units'', ''Developer Proceeds'',
                  ''Currency of Proceeds'', ''Country Code'', ''Product Type Identifier''],
                map Str [''Alpha'', ''1001'', ''3'', ''0.70'', ''USD'', ''US'', ''1'']])
   \<and> exReporter (Some 210) (Some 213) (100 - 1) = ReportRejected (Some 210)
   \<and> 210 \<in> set NO_REPORT_ERRORS
   \<and> getSalesForDate decimalLiteral (exReporter (Some 210) (Some 213))
        (RatesBody (Some Map.empty)) 100 = Inl TypeError"
proof -
  have h1: "getDailySales (exReporter (Some 210) (Some 213)) 100 =
     Inr (Some [map Str [''Title'', ''Apple Identifier'', ''Units'', ''Developer Proceeds'',
                  ''Currency of Proceeds'', ''Country Code'', ''Product Type Identifier''],
                map Str [''Alpha'', ''1001'', ''3'', ''0.70'', ''USD'', ''US'', ''1'']])"
    by code_simp
  have h2: "getExchangeRates (RatesBody (Some Map.empty)) = Inr (Map.empty(''USD'' \<mapsto> 1))"
    by (simp add: getExchangeRates_def)
  have h3: "parseSalesReport decimalLiteral
      (Some [map Str [''Title'', ''Apple Identifier'', ''Units'', ''Developer Proceeds'',
                  ''Currency of Proceeds'', ''Country Code'', ''Product Type Identifier''],
             map Str [''Alpha'', ''1001'', ''3'', ''0.70'', ''USD'', ''US'', ''1'']])
      (Map.empty(''USD'' \<mapsto> 1)) =
      Inr [(''1001'', \<lparr>title = Str ''Alpha'', country = Str ''US'', icon = Null,
                      installs = 3, revenue = 21 / 10\<rparr>)]"
    by code_simp
  have h4: "[(''1001'', \<lparr>title = Str ''Alpha'', country = Str ''US'', icon = Null,
                      installs = 3, revenue = 21 / 10\<rparr>)] \<noteq> []"
    by simp
  have h5: "exReporter (Some 210) (Some 213) (100 - 1) = ReportRejected (Some 210)"
    by (simp add: exReporter_def)
  have h6: "210 \<in> set NO_REPORT_ERRORS"
    by (simp add: NO_REPORT_ERRORS_def)
  show ?thesis
    using comparison_not_published_raises [OF h1 h2 h3 h4 h5 h6] h1 h5 h6 by simp
qed

section \<open>Properties of the formatters\<close>

subsection \<open>The comma pattern on a run of digits, and toFixed, against the worded formats\<close>

lemma of_char_digit: "d < 10 \<Longrightarrow> (of_char (digit d) :: nat) = 48 + d"
  by (simp add: digit_def)

lemma isDigit_digit: "d < 10 \<Longrightarrow> isDigit (digit d)"
  by (simp add: isDigit_def of_char_digit)

lemma isWordChar_digit: "isDigit ch \<Longrightarrow> isWordChar ch"
  by (simp add: isDigit_def isWordChar_def)

lemma digitsOf_digits: "list_all isDigit (digitsOf n)"
proof (induction n rule: digitsOf.induct)
  case (1 n)
  show ?case
  proof (cases "n < 10")
    case True
    then show ?thesis by (subst digitsOf.simps) (simp add: isDigit_digit)
  next
    case False
    with "1" show ?thesis by (subst digitsOf.simps) (simp add: isDigit_digit)
  qed
qed

lemma digitsOf_not_Nil: "digitsOf n \<noteq> []"
  by (subst digitsOf.simps) simp

lemma digitsOf_small: "n < 10 \<Longrightarrow> digitsOf n = [digit n]"
  by (subst digitsOf.simps) simp

lemma digitsOf_large: "10 \<le> n \<Longrightarrow> digitsOf n = digitsOf (n div 10) @ [digit (n mod 10)]"
  by (subst digitsOf.simps) simp

lemma takeWhile_no_digit:
  "rest = [] \<or> \<not> isDigit (hd rest) \<Longrightarrow> takeWhile isDigit rest = []"
  by (cases rest) auto

lemma takeWhile_digits_append:
  "list_all isDigit ds \<Longrightarrow> rest = [] \<or> \<not> isDigit (hd rest) \<Longrightarrow>
   takeWhile isDigit (ds @ rest) = ds"
  by (induction ds) (simp_all add: takeWhile_no_digit)

lemma insertCommas_run:
  assumes "list_all isDigit ds" and "rest = [] \<or> \<not> isDigit (hd rest)" and "isWordChar p"
  shows "insertCommas (Some p) (ds @ rest) =
           commasByCount ds @ insertCommas (Some (last (p # ds))) rest"
  using assms
proof (induction ds arbitrary: p)
  case Nil
  then show ?case by simp
next
  case (Cons d ds)
  have run: "takeWhile isDigit (d # ds @ rest) = d # ds"
    using takeWhile_digits_append [of "d # ds" rest] Cons.prems by simp
  have nb: "notBoundary (Some p) d"
    using Cons.prems by (simp add: notBoundary_def isWordChar_digit)
  have la: "lookahead (d # ds @ rest) \<longleftrightarrow> length (d # ds) mod 3 = 0"
    unfolding lookahead_def run by (simp add: Let_def)
  have IH: "insertCommas (Some d) (ds @ rest) =
      commasByCount ds @ insertCommas (Some (last (d # ds))) rest"
    using Cons.IH [of d] Cons.prems by (simp add: isWordChar_digit)
  show ?case
    using nb la IH by simp
qed

lemma insertCommas_first:
  assumes "isDigit d" and "list_all isDigit ds" and "rest = [] \<or> \<not> isDigit (hd rest)"
    and "prev = None \<or> (\<exists>p. prev = Some p \<and> \<not> isWordChar p)"
  shows "insertCommas prev (d # ds @ rest) =
           d # commasByCount ds @ insertCommas (Some (last (d # ds))) rest"
proof -
  have "\<not> notBoundary prev d"
    using assms(1,4) by (auto simp: notBoundary_def isWordChar_digit)
  then show ?thesis
    using insertCommas_run [OF assms(2,3), of d] assms(1) by (simp add: isWordChar_digit)
qed

lemma commasByCount_short: "length ds < 3 \<Longrightarrow> commasByCount ds = ds"
  by (induction ds) auto

lemma commasByCount_append:
  "length ys mod 3 = 0 \<Longrightarrow> commasByCount (xs @ ys) = commasByCount xs @ commasByCount ys"
  by (induction xs) (auto simp: mod_Suc)

lemma commasByCount_three: "length ys = 3 \<Longrightarrow> commasByCount ys = CHR '','' # ys"
  by (cases ys) (auto simp: commasByCount_short)

lemma spec_group_commasByCount:
  "ds \<noteq> [] \<Longrightarrow> spec_group ds = hd ds # commasByCount (tl ds)"
proof (induction ds rule: spec_group.induct)
  case (1 ds)
  show ?case
  proof (cases "length ds \<le> 3")
    case True
    with "1.prems" show ?thesis
      by (subst spec_group.simps) (simp add: commasByCount_short)
  next
    case False
    define xs where "xs = take (length ds - 3) ds"
    define ys where "ys = drop (length ds - 3) ds"
    have ds: "ds = xs @ ys" and ly: "length ys = 3" and xs: "xs \<noteq> []"
      using False by (auto simp: xs_def ys_def)
    have IH: "spec_group xs = hd xs # commasByCount (tl xs)"
      using "1.IH" False xs unfolding xs_def by simp
    have "spec_group ds = spec_group xs @ '','' @ ys"
      using False by (subst spec_group.simps) (simp add: xs_def ys_def)
    also have "\<dots> = hd xs # commasByCount (tl xs) @ commasByCount ys"
      using IH ly by (simp add: commasByCount_three)
    also have "\<dots> = hd xs # commasByCount (tl xs @ ys)"
      using ly by (simp add: commasByCount_append)
    also have "\<dots> = hd ds # commasByCount (tl ds)"
      using xs by (simp add: ds)
    finally show ?thesis .
  qed
qed

lemma insertCommas_digits:
  assumes "ds \<noteq> []" and "list_all isDigit ds" and "rest = [] \<or> \<not> isDigit (hd rest)"
    and "prev = None \<or> (\<exists>p. prev = Some p \<and> \<not> isWordChar p)"
  shows "insertCommas prev (ds @ rest) = spec_group ds @ insertCommas (Some (last ds)) rest"
proof -
  obtain d ds' where ds: "ds = d # ds'"
    using assms(1) by (cases ds) auto
  show ?thesis
    using insertCommas_first [of d ds' rest prev] assms spec_group_commasByCount [of ds]
    by (simp add: ds)
qed

lemma digit_zero: "digit 0 = CHR ''0''"
  by code_simp

lemma length_digitsOf_pos: "Suc 0 \<le> length (digitsOf n)"
  using digitsOf_not_Nil [of n] by (cases "digitsOf n") simp_all


lemma padAndPoint_two:
  "padAndPoint 2 (digitsOf n) =
     digitsOf (n div 100) @ ''.'' @ [digit ((n div 10) mod 10), digit (n mod 10)]"
proof -
  consider "n < 10" | "10 \<le> n" "n < 100" | "100 \<le> n"
    by linarith
  then show ?thesis
  proof cases
    case 1
    then show ?thesis
      by (simp add: padAndPoint_def digitsOf_small digit_zero numeral_2_eq_2)
  next
    case 2
    then have "n div 10 < 10" by simp
    with 2 show ?thesis
      by (simp add: padAndPoint_def digitsOf_large [of n] digitsOf_small digit_zero)
  next
    case 3
    then have big: "10 \<le> n div 10" and ten: "10 \<le> n" by simp_all
    have h: "n div 10 div 10 = n div 100"
      using div_mult2_eq [of n 10 10] by simp
    have d: "digitsOf n = digitsOf (n div 100) @ [digit ((n div 10) mod 10), digit (n mod 10)]"
      using digitsOf_large [OF ten] digitsOf_large [OF big] by (simp add: h)
    show ?thesis
      using length_digitsOf_pos [of "n div 100"]
      by (simp add: padAndPoint_def Let_def d digitsOf_not_Nil)
  qed
qed

lemma toFixed_large: "10 ^ 21 \<le> \<bar>x\<bar> \<Longrightarrow> toFixed S x f = S x"
  by (simp add: toFixed_def)

lemma toFixed_zero:
  "\<bar>x\<bar> < 10 ^ 21 \<Longrightarrow>
   toFixed S x 0 = (if x < 0 then ''-'' else []) @ digitsOf (nat \<lfloor>\<bar>x\<bar> + 1 / 2\<rfloor>)"
  by (simp add: toFixed_def)


lemma toFixed_two:
  "\<bar>x\<bar> < 10 ^ 21 \<Longrightarrow>
   toFixed S x 2 = (if x < 0 then ''-'' else [])
     @ digitsOf (nat \<lfloor>\<bar>x\<bar> * 100 + 1 / 2\<rfloor> div 100)
     @ ''.'' @ [digit ((nat \<lfloor>\<bar>x\<bar> * 100 + 1 / 2\<rfloor> div 10) mod 10),
                digit (nat \<lfloor>\<bar>x\<bar> * 100 + 1 / 2\<rfloor> mod 10)]"
  by (simp add: toFixed_def Let_def padAndPoint_two)

lemma spec_decimals_zero:
  "spec_decimals 0 y = spec_group (digitsOf (nat \<lfloor>y + 1 / 2\<rfloor>))"
  by (simp add: spec_decimals_def)


lemma spec_decimals_two:
  "spec_decimals 2 y = spec_group (digitsOf (nat \<lfloor>y * 100 + 1 / 2\<rfloor> div 100))
     @ ''.'' @ [digit ((nat \<lfloor>y * 100 + 1 / 2\<rfloor> div 10) mod 10),
                digit (nat \<lfloor>y * 100 + 1 / 2\<rfloor> mod 10)]"
  by (simp add: spec_decimals_def Let_def numeral_2_eq_2)

lemma not_word_point: "\<not> isWordChar (CHR ''.'')" and not_word_minus: "\<not> isWordChar (CHR ''-'')"
  and not_digit_point: "\<not> isDigit (CHR ''.'')" and not_digit_minus: "\<not> isDigit (CHR ''-'')"
  by (simp_all add: isWordChar_def isDigit_def)


lemma insertCommas_fraction_two:
  "isWordChar q \<Longrightarrow> isDigit a \<Longrightarrow> isDigit b \<Longrightarrow>
   insertCommas (Some q) [CHR ''.'', a, b] = [CHR ''.'', a, b]"
  by (simp add: notBoundary_def not_word_point isWordChar_digit lookahead_def)

lemma last_digit_word: "ds \<noteq> [] \<Longrightarrow> list_all isDigit ds \<Longrightarrow> isWordChar (last ds)"
  by (simp add: list_all_iff isWordChar_digit)

lemma insertCommas_integer:
  "insertCommas None (digitsOf n) = spec_group (digitsOf n)"
  using insertCommas_digits [of "digitsOf n" "[]" None]
  by (simp add: digitsOf_not_Nil digitsOf_digits)


lemma insertCommas_two_decimals:
  assumes "isDigit a" and "isDigit b"
  shows "insertCommas None (digitsOf n @ ''.'' @ [a, b]) = spec_group (digitsOf n) @ ''.'' @ [a, b]"
  using insertCommas_digits [of "digitsOf n" "[CHR ''.'', a, b]" None] assms
    insertCommas_fraction_two [of "last (digitsOf n)" a b]
  by (simp add: digitsOf_not_Nil digitsOf_digits last_digit_word not_digit_point)


lemma insertCommas_minus:
  "insertCommas None (CHR ''-'' # s) = CHR ''-'' # insertCommas (Some (CHR ''-'')) s"
  by (simp add: lookahead_def not_digit_minus)

lemma formatCurrency_refines:
  assumes "\<bar>v\<bar> < 10 ^ 21"
  shows "formatCurrency S v = spec_formatCurrency v"
proof (cases "\<bar>v\<bar> \<ge> 100")
  case True
  have "toFixed S \<bar>v\<bar> 0 = digitsOf (nat \<lfloor>\<bar>v\<bar> + 1 / 2\<rfloor>)"
    using toFixed_zero [of "\<bar>v\<bar>" S] assms by simp
  with True show ?thesis
    by (simp add: formatCurrency_def spec_formatCurrency_def spec_decimals_zero
        insertCommas_integer)
next
  case False
  define n where "n = nat \<lfloor>\<bar>v\<bar> * 100 + 1 / 2\<rfloor>"
  have fx: "toFixed S \<bar>v\<bar> 2 =
      digitsOf (n div 100) @ ''.'' @ [digit ((n div 10) mod 10), digit (n mod 10)]"
    using toFixed_two [of "\<bar>v\<bar>" S] assms by (simp add: n_def)
  have sd: "spec_decimals 2 \<bar>v\<bar> =
      spec_group (digitsOf (n div 100)) @ ''.'' @ [digit ((n div 10) mod 10), digit (n mod 10)]"
    by (simp add: spec_decimals_two n_def)
  have "insertCommas None (toFixed S \<bar>v\<bar> 2) = spec_decimals 2 \<bar>v\<bar>"
    unfolding fx sd by (rule insertCommas_two_decimals) (simp_all add: isDigit_digit)
  with False show ?thesis
    by (simp add: formatCurrency_def spec_formatCurrency_def)
qed


subsection \<open>C5: the percent change\<close>


lemma spec_formatPercent_one: "spec_formatPercent 1 = ''+100.0%''"
  by code_simp




subsection \<open>C6: the currency format\<close>

text \<open>
  C6, as the code has it. For a value below \<open>10^21\<close> in size, \<^verbatim>\<open>formatCurrency\<close> gives
  a minus sign only for a negative value, then \<open>$\<close>, then the absolute value rounded
  to the nearest (a tie goes up) with no decimal places from 100 on and two below, the
  integer part grouped in threes. So 1234.5 is \<open>$1,235\<close>, 42.5 is \<open>$42.50\<close> and -5.2 is
  \<open>-$5.20\<close>.
\<close>

theorem currency_format:
  assumes "\<bar>v\<bar> < 10 ^ 21"
  shows "formatCurrency S v = spec_formatCurrency v
         \<and> formatCurrency S (2469 / 2) = ''$1,235''
         \<and> formatCurrency S (85 / 2) = ''$42.50''
         \<and> formatCurrency S (- 26 / 5) = ''-$5.20''"
proof -
  have e1: "spec_formatCurrency (2469 / 2) = ''$1,235''"
    and e2: "spec_formatCurrency (85 / 2) = ''$42.50''"
    and e3: "spec_formatCurrency (- 26 / 5) = ''-$5.20''"
    by code_simp+
  have "formatCurrency S (2469 / 2) = ''$1,235''"
    using formatCurrency_refines [of "2469 / 2" S] e1 by simp
  moreover have "formatCurrency S (85 / 2) = ''$42.50''"
    using formatCurrency_refines [of "85 / 2" S] e2 by simp
  moreover have "formatCurrency S (- 26 / 5) = ''-$5.20''"
    using formatCurrency_refines [of "- 26 / 5" S] e3 by simp
  ultimately show ?thesis
    using formatCurrency_refines [OF assms] by simp
qed

text \<open>
  The claim as stated has 1234.5 formatted as \<open>$1,234\<close>; \<^verbatim>\<open>toFixed(0)\<close> rounds the tie
  up, and the result is \<open>$1,235\<close>.
\<close>

theorem currency_format_counterexample:
  "formatCurrency integerString (2469 / 2) = ''$1,235''"
  by code_simp

theorem currency_format_witness:
  "\<bar>- 1234567 / 2\<bar> < (10 :: rat) ^ 21
   \<and> formatCurrency integerString (- 1234567 / 2) = ''-$617,284''"
proof -
  have h: "\<bar>- 1234567 / 2\<bar> < (10 :: rat) ^ 21"
    by simp
  have e: "spec_formatCurrency (- 1234567 / 2) = ''-$617,284''"
    by code_simp
  show ?thesis
    using currency_format [OF h, of integerString] e by simp
qed

section \<open>Properties of buildSlackMessage\<close>

lemma andThen_Inr: "andThen p f = Inr y \<longleftrightarrow> (\<exists>x. p = Inr x \<and> f x = Inr y)"
  by (cases p) auto

lemma insertSorted_mset:
  "insertSorted cmp x ys = Inr zs \<Longrightarrow> mset zs = add_mset x (mset ys)"
proof (induction ys arbitrary: zs)
  case Nil
  then show ?case by auto
next
  case (Cons y ys)
  from Cons.prems obtain c where c: "cmp x y = Inr c"
    and rest: "(if c \<le> 0 then Inr (x # y # ys)
                else andThen (insertSorted cmp x ys) (\<lambda>zs. Inr (y # zs))) = Inr zs"
    by (auto simp: andThen_Inr)
  show ?case
  proof (cases "c \<le> 0")
    case True
    with rest show ?thesis by auto
  next
    case False
    with rest obtain ws where ws: "insertSorted cmp x ys = Inr ws" and zs: "zs = y # ws"
      by (auto simp: andThen_Inr)
    from Cons.IH [OF ws] zs show ?thesis by simp
  qed
qed

lemma insertSorted_total:
  "\<forall>y\<in>set ys. \<exists>c. cmp x y = Inr c \<Longrightarrow> \<exists>zs. insertSorted cmp x ys = Inr zs"
proof (induction ys)
  case Nil
  then show ?case by simp
next
  case (Cons y ys)
  then obtain c zs where "cmp x y = Inr c" and "insertSorted cmp x ys = Inr zs"
    by auto
  then show ?case by simp
qed

lemma Array_sort_mset: "Array_sort cmp xs = Inr ys \<Longrightarrow> mset ys = mset xs"
proof (induction xs arbitrary: ys)
  case Nil
  then show ?case by simp
next
  case (Cons x xs)
  then obtain ws where ws: "Array_sort cmp xs = Inr ws" and ys: "insertSorted cmp x ws = Inr ys"
    by (auto simp: andThen_Inr)
  from Cons.IH [OF ws] insertSorted_mset [OF ys] show ?case by simp
qed

lemma Array_sort_total:
  "\<forall>a\<in>set xs. \<forall>b\<in>set xs. \<exists>c. cmp a b = Inr c \<Longrightarrow> \<exists>ys. Array_sort cmp xs = Inr ys"
proof (induction xs)
  case Nil
  then show ?case by simp
next
  case (Cons x xs)
  then obtain ws where ws: "Array_sort cmp xs = Inr ws"
    by auto
  have "set ws = set xs"
    using Array_sort_mset [OF ws] by (rule mset_eq_setD)
  with Cons.prems have "\<forall>y\<in>set ws. \<exists>c. cmp x y = Inr c"
    by simp
  then obtain ys where "insertSorted cmp x ws = Inr ys"
    using insertSorted_total [of ws cmp x] by auto
  with ws show ?case by simp
qed

lemma map_of_key: "k \<in> fst ` set d \<Longrightarrow> \<exists>a. map_of d k = Some a \<and> (k, a) \<in> set d"
  by (cases "map_of d k") (auto simp: map_of_eq_None_iff dest: map_of_SomeD)

lemma titleCompare_total:
  assumes "a \<in> fst ` set d" and "b \<in> fst ` set d" and "\<forall>e\<in>set d. isStr (title (snd e))"
  shows "\<exists>c. titleCompare lc d a b = Inr c"
proof -
  from map_of_key [OF assms(1)] obtain x where x: "map_of d a = Some x" and xd: "(a, x) \<in> set d"
    by auto
  from map_of_key [OF assms(2)] obtain y where y: "map_of d b = Some y"
    by auto
  from bspec [OF assms(3) xd] have "isStr (title x)"
    by simp
  then obtain s where "title x = Str s"
    by (cases "title x") (simp_all add: isStr_def)
  with x y show ?thesis
    by (simp add: titleCompare_def)
qed

lemma comparisonOf_Some: "map_of m k = Some a \<Longrightarrow> comparisonOf m k = a"
  by (simp add: comparisonOf_def)

lemma appSection_eq:
  assumes "day sales = Some d" and "prevDay sales = Some pd" and "prevWeek sales = Some pw"
    and "k \<in> fst ` set d"
  shows "appSection S sales st k =
     Inr \<lparr> totalInstalls = \<lparr>
             day = day (totalInstalls st) + installs (comparisonOf d k),
             prevDay = prevDay (totalInstalls st) + installs (comparisonOf pd k),
             prevWeek = prevWeek (totalInstalls st) + installs (comparisonOf pw k) \<rparr>,
           totalRevenue = \<lparr>
             day = day (totalRevenue st) + revenue (comparisonOf d k),
             prevDay = prevDay (totalRevenue st) + revenue (comparisonOf pd k),
             prevWeek = prevWeek (totalRevenue st) + revenue (comparisonOf pw k) \<rparr>,
           attachments = attachments st @
             [sectionOf S (comparisonOf d k) (comparisonOf pd k) (comparisonOf pw k)] \<rparr>"
proof -
  from map_of_key [OF assms(4)] obtain a where a: "map_of d k = Some a"
    by auto
  show ?thesis
    unfolding appSection_def comparisonOf_def sectionOf_def spec_isGood_def
    by (auto simp: assms(1,2,3) a Let_def split: option.splits)
qed

lemma forEach_appSection:
  assumes "day sales = Some d" and "prevDay sales = Some pd" and "prevWeek sales = Some pw"
    and "set ids \<subseteq> fst ` set d"
  shows "forEach (appSection S sales) ids st =
     Inr \<lparr> totalInstalls = \<lparr>
             day = day (totalInstalls st) + totalOver installs d ids,
             prevDay = prevDay (totalInstalls st) + totalOver installs pd ids,
             prevWeek = prevWeek (totalInstalls st) + totalOver installs pw ids \<rparr>,
           totalRevenue = \<lparr>
             day = day (totalRevenue st) + totalOver revenue d ids,
             prevDay = prevDay (totalRevenue st) + totalOver revenue pd ids,
             prevWeek = prevWeek (totalRevenue st) + totalOver revenue pw ids \<rparr>,
           attachments = attachments st @ map (sectionFor S d pd pw) ids \<rparr>"
  using assms(4)
proof (induction ids arbitrary: st)
  case Nil
  show ?case by (simp add: totalOver_def)
next
  case (Cons k ids)
  then have k: "k \<in> fst ` set d" and ids: "set ids \<subseteq> fst ` set d"
    by simp_all
  show ?case
    by (simp add: appSection_eq [OF assms(1,2,3) k] Cons.IH [OF ids] totalOver_def
        sectionFor_def add.assoc)
qed

lemma totalOver_perm: "mset ids = mset ks \<Longrightarrow> totalOver f m ids = totalOver f m ks"
proof -
  assume "mset ids = mset ks"
  then have "mset (map (\<lambda>k. f (comparisonOf m k)) ids) = mset (map (\<lambda>k. f (comparisonOf m k)) ks)"
    by simp
  then have "sum_mset (mset (map (\<lambda>k. f (comparisonOf m k)) ids))
      = sum_mset (mset (map (\<lambda>k. f (comparisonOf m k)) ks))"
    by (rule arg_cong)
  then show ?thesis
    by (simp only: totalOver_def sum_mset_sum_list)
qed

lemma buildSlackMessage_sections:
  assumes "day sales = Some d" and "d \<noteq> []"
    and "prevDay sales = Some pd" and "prevWeek sales = Some pw"
    and "\<forall>e\<in>set d. isStr (title (snd e))"
  shows "\<exists>ids. mset ids = mset (map fst d)
           \<and> buildSlackMessage S lc sales dateStr =
               Inr (MsgAttachments
                 (totalsOf S dateStr
                    \<lparr> day = totalOver installs d (map fst d),
                      prevDay = totalOver installs pd (map fst d),
                      prevWeek = totalOver installs pw (map fst d) \<rparr>
                    \<lparr> day = totalOver revenue d (map fst d),
                      prevDay = totalOver revenue pd (map fst d),
                      prevWeek = totalOver revenue pw (map fst d) \<rparr>
                  # take MAX_ATTACHMENTS (map (sectionFor S d pd pw) ids)))"
proof -
  have keys: "set (Object_keys d) = fst ` set d"
    using mset_eq_setD [OF Object_keys_mset [of d]] by simp
  have "\<forall>a\<in>set (Object_keys d). \<forall>b\<in>set (Object_keys d). \<exists>c. titleCompare lc d a b = Inr c"
    using titleCompare_total [OF _ _ assms(5)] by (simp add: keys)
  then obtain ids where sorted: "Array_sort (titleCompare lc d) (Object_keys d) = Inr ids"
    using Array_sort_total [of "Object_keys d" "titleCompare lc d"] by auto
  have perm: "mset ids = mset (map fst d)"
    using Array_sort_mset [OF sorted] by (simp add: Object_keys_mset)
  then have sub: "set ids \<subseteq> fst ` set d"
    using mset_eq_setD [OF perm] by simp
  have "length (Object_keys d) \<noteq> 0"
    using assms(2) by (simp add: Object_keys_length)
  then have nonempty: "Object_keys d \<noteq> []"
    by simp
  have cut: "(if length xs > MAX_ATTACHMENTS then take MAX_ATTACHMENTS xs else xs)
      = take MAX_ATTACHMENTS xs" for xs :: "attachment list"
    by simp
  have good: "(if x \<noteq> 0 then x > y else u > v) \<longleftrightarrow> (x \<noteq> 0 \<and> x > y) \<or> (x = 0 \<and> u > v)"
    for x y u v :: rat
    by auto
  have "buildSlackMessage S lc sales dateStr =
      Inr (MsgAttachments
        (totalsOf S dateStr
           \<lparr> day = totalOver installs d ids, prevDay = totalOver installs pd ids,
             prevWeek = totalOver installs pw ids \<rparr>
           \<lparr> day = totalOver revenue d ids, prevDay = totalOver revenue pd ids,
             prevWeek = totalOver revenue pw ids \<rparr>
         # take MAX_ATTACHMENTS (map (sectionFor S d pd pw) ids)))"
    unfolding buildSlackMessage_def
    by (simp add: assms(1) nonempty sorted forEach_appSection [OF assms(1,3,4) sub]
        Let_def cut good totalsOf_def del: take_all_iff)
  then show ?thesis
    using perm by (auto simp: totalOver_perm [OF perm])
qed

lemma createFields_titles:
  "map field_title (createFields S i r pdi pdr pwi pwr) =
     (if r \<noteq> 0 then [Some ''Downloads'', Some ''Revenue'', None, None]
      else [Some ''Downloads'', None])"
  by (simp add: createFields_def)

lemma length_take_sections:
  "mset ids = mset (map fst d) \<Longrightarrow>
   length (take MAX_ATTACHMENTS (map f ids)) = min (length d) MAX_ATTACHMENTS"
  using mset_eq_length [of ids "map fst d"] by simp

subsection \<open>C7: the cap on the per-app sections\<close>

text \<open>
  C7. For a snapshot with a non-empty \<^verbatim>\<open>day\<close> mapping (whose titles are strings, and with
  both comparison mappings present, as \<^verbatim>\<open>getSalesForDate\<close> returns them),
  \<^verbatim>\<open>buildSlackMessage\<close> returns, without an error, the Totals section first and then
  the sections of the first 20 apps in the sorted order: \<open>min n 20\<close> sections for \<open>n\<close>
  apps, the others dropped with no further content in the message. For 25 apps that
  is 21 sections.
\<close>

theorem attachments_capped:
  assumes "day sales = Some d" and "d \<noteq> []"
    and "prevDay sales = Some pd" and "prevWeek sales = Some pw"
    and "\<forall>e\<in>set d. isStr (title (snd e))"
  shows "\<exists>totals secs ids. buildSlackMessage S lc sales dateStr = Inr (MsgAttachments (totals # secs))
           \<and> att_title totals = Some ''Totals''
           \<and> mset ids = mset (map fst d)
           \<and> secs = map (sectionFor S d pd pw) (take MAX_ATTACHMENTS ids)
           \<and> list_all (\<lambda>a. att_title a = None) secs
           \<and> length secs = min (length d) 20
           \<and> (length d = 25 \<longrightarrow> length (totals # secs) = 21)"
proof -
  from buildSlackMessage_sections [OF assms, of S lc dateStr] obtain ids where
    perm: "mset ids = mset (map fst d)"
    and msg: "buildSlackMessage S lc sales dateStr =
       Inr (MsgAttachments
         (totalsOf S dateStr
            \<lparr> day = totalOver installs d (map fst d),
              prevDay = totalOver installs pd (map fst d),
              prevWeek = totalOver installs pw (map fst d) \<rparr>
            \<lparr> day = totalOver revenue d (map fst d),
              prevDay = totalOver revenue pd (map fst d),
              prevWeek = totalOver revenue pw (map fst d) \<rparr>
          # take MAX_ATTACHMENTS (map (sectionFor S d pd pw) ids)))"
    by blast
  define secs where "secs = take MAX_ATTACHMENTS (map (sectionFor S d pd pw) ids)"
  have len: "length secs = min (length d) 20"
    using length_take_sections [OF perm, of "sectionFor S d pd pw"]
    by (simp add: secs_def MAX_ATTACHMENTS_def)
  have eq: "secs = map (sectionFor S d pd pw) (take MAX_ATTACHMENTS ids)"
    by (simp add: secs_def take_map)
  have none: "list_all (\<lambda>a. att_title a = None) secs"
    by (simp add: eq list_all_iff sectionFor_def sectionOf_def)
  define totals where "totals = totalsOf S dateStr
      \<lparr> day = totalOver installs d (map fst d),
        prevDay = totalOver installs pd (map fst d),
        prevWeek = totalOver installs pw (map fst d) \<rparr>
      \<lparr> day = totalOver revenue d (map fst d),
        prevDay = totalOver revenue pd (map fst d),
        prevWeek = totalOver revenue pw (map fst d) \<rparr>"
  have t: "att_title totals = Some ''Totals''"
    by (simp add: totals_def totalsOf_def)
  have m: "buildSlackMessage S lc sales dateStr = Inr (MsgAttachments (totals # secs))"
    using msg by (simp only: totals_def secs_def)
  have l25: "length d = 25 \<longrightarrow> length (totals # secs) = 21"
    using len by simp
  show ?thesis
    using m t perm eq none len l25 by blast
qed

theorem attachments_capped_witness:
  "day (exManySales 25) = Some (exManyApps 25) \<and> length (exManyApps 25) = 25
   \<and> list_all (\<lambda>e. isStr (title (snd e))) (exManyApps 25)
   \<and> (\<exists>totals secs. buildSlackMessage integerString codeCompare (exManySales 25)
            ''November 1, 2026'' = Inr (MsgAttachments (totals # secs))
          \<and> att_title totals = Some ''Totals''
          \<and> length (totals # secs) = 21)"
proof -
  have h1: "day (exManySales 25) = Some (exManyApps 25)"
    and h3: "prevDay (exManySales 25) = Some []" and h4: "prevWeek (exManySales 25) = Some []"
    by (simp_all add: exManySales_def)
  have len: "length (exManyApps 25) = 25"
    by (simp add: exManyApps_def)
  then have h2: "exManyApps 25 \<noteq> []"
    by auto
  have h5: "\<forall>e\<in>set (exManyApps 25). isStr (title (snd e))"
    by (auto simp: exManyApps_def exApp_def isStr_def)
  show ?thesis
    using attachments_capped [OF h1 h2 h3 h4 h5, of integerString codeCompare "''November 1, 2026''"]
      h1 len h5
    by (auto simp: list_all_iff)
qed

subsection \<open>C4: the colour and the fields of an app's section\<close>

text \<open>
  C4. Under the same conditions every per-app section of the message belongs to an app
  of \<^verbatim>\<open>day\<close> (the \<open>i\<close>-th section to the \<open>i\<close>-th app in sorted order), carries its title,
  and is good exactly when the app's revenue is nonzero and above the prior day's, or
  zero with installs above the prior day's (an app the prior day lacks counting as
  0); its fields are Downloads and the installs' percent changes, with Revenue and the
  revenue's percent changes only when the app's revenue is nonzero.
\<close>

theorem section_good_rule:
  assumes "day sales = Some d" and "d \<noteq> []"
    and "prevDay sales = Some pd" and "prevWeek sales = Some pw"
    and "\<forall>e\<in>set d. isStr (title (snd e))"
  shows "\<exists>totals secs ids. buildSlackMessage S lc sales dateStr = Inr (MsgAttachments (totals # secs))
           \<and> mset ids = mset (map fst d)
           \<and> length secs = min (length d) MAX_ATTACHMENTS
           \<and> (\<forall>i<length secs. \<exists>a.
                  (ids ! i, a) \<in> set d
                \<and> author_name (secs ! i) = Some (title a)
                \<and> color (secs ! i) =
                    (if spec_isGood a (comparisonOf pd (ids ! i)) then ''good'' else ''danger'')
                \<and> att_fields (secs ! i) =
                    createFields S (installs a) (revenue a)
                      (installs (comparisonOf pd (ids ! i))) (revenue (comparisonOf pd (ids ! i)))
                      (installs (comparisonOf pw (ids ! i))) (revenue (comparisonOf pw (ids ! i)))
                \<and> map field_title (att_fields (secs ! i)) =
                    (if revenue a \<noteq> 0 then [Some ''Downloads'', Some ''Revenue'', None, None]
                     else [Some ''Downloads'', None]))"
proof -
  from buildSlackMessage_sections [OF assms, of S lc dateStr] obtain ids where
    perm: "mset ids = mset (map fst d)"
    and msg: "buildSlackMessage S lc sales dateStr =
       Inr (MsgAttachments
         (totalsOf S dateStr
            \<lparr> day = totalOver installs d (map fst d),
              prevDay = totalOver installs pd (map fst d),
              prevWeek = totalOver installs pw (map fst d) \<rparr>
            \<lparr> day = totalOver revenue d (map fst d),
              prevDay = totalOver revenue pd (map fst d),
              prevWeek = totalOver revenue pw (map fst d) \<rparr>
          # take MAX_ATTACHMENTS (map (sectionFor S d pd pw) ids)))"
    by blast
  define secs where "secs = take MAX_ATTACHMENTS (map (sectionFor S d pd pw) ids)"
  define totals where "totals = totalsOf S dateStr
      \<lparr> day = totalOver installs d (map fst d),
        prevDay = totalOver installs pd (map fst d),
        prevWeek = totalOver installs pw (map fst d) \<rparr>
      \<lparr> day = totalOver revenue d (map fst d),
        prevDay = totalOver revenue pd (map fst d),
        prevWeek = totalOver revenue pw (map fst d) \<rparr>"
  have m: "buildSlackMessage S lc sales dateStr = Inr (MsgAttachments (totals # secs))"
    using msg by (simp only: totals_def secs_def)
  have len: "length secs = min (length d) MAX_ATTACHMENTS"
    using length_take_sections [OF perm, of "sectionFor S d pd pw"] by (simp add: secs_def)
  have each: "\<exists>a. (ids ! i, a) \<in> set d
        \<and> author_name (secs ! i) = Some (title a)
        \<and> color (secs ! i) =
            (if spec_isGood a (comparisonOf pd (ids ! i)) then ''good'' else ''danger'')
        \<and> att_fields (secs ! i) =
            createFields S (installs a) (revenue a)
              (installs (comparisonOf pd (ids ! i))) (revenue (comparisonOf pd (ids ! i)))
              (installs (comparisonOf pw (ids ! i))) (revenue (comparisonOf pw (ids ! i)))
        \<and> map field_title (att_fields (secs ! i)) =
            (if revenue a \<noteq> 0 then [Some ''Downloads'', Some ''Revenue'', None, None]
             else [Some ''Downloads'', None])"
    if i: "i < length secs" for i
  proof -
    from i have il: "i < length ids" and im: "i < MAX_ATTACHMENTS"
      by (simp_all add: secs_def)
    then have sec: "secs ! i = sectionFor S d pd pw (ids ! i)"
      by (simp add: secs_def)
    from il have "ids ! i \<in> set ids"
      by simp
    then have "ids ! i \<in> fst ` set d"
      using mset_eq_setD [OF perm] by simp
    from map_of_key [OF this] obtain a where a: "map_of d (ids ! i) = Some a"
      and ad: "(ids ! i, a) \<in> set d"
      by auto
    show ?thesis
      using ad
      by (intro exI [of _ a])
        (simp add: sec sectionFor_def sectionOf_def comparisonOf_Some [OF a] createFields_titles)
  qed
  show ?thesis
    using m perm len each by blast
qed

text \<open>
  The witness is the scenario of the claim: 100 installs, no revenue, 80 installs the
  day before. The section is good and has no Revenue field.
\<close>

theorem section_good_rule_witness:
  "day exOneAppSales = Some [(''1002'', exApp ''Beta'' 100 0)]
   \<and> prevDay exOneAppSales = Some [(''1002'', exApp ''Beta'' 80 0)]
   \<and> isStr (title (exApp ''Beta'' 100 0))
   \<and> spec_isGood (exApp ''Beta'' 100 0) (exApp ''Beta'' 80 0)
   \<and> (\<exists>totals sec. buildSlackMessage integerString codeCompare exOneAppSales ''November 1, 2026''
            = Inr (MsgAttachments [totals, sec])
          \<and> author_name sec = Some (Str ''Beta'')
          \<and> color sec = ''good''
          \<and> map field_title (att_fields sec) = [Some ''Downloads'', None])"
proof -
  have h1: "day exOneAppSales = Some [(''1002'', exApp ''Beta'' 100 0)]"
    and h3: "prevDay exOneAppSales = Some [(''1002'', exApp ''Beta'' 80 0)]"
    and h4: "prevWeek exOneAppSales = Some []"
    by (simp_all add: exOneAppSales_def)
  have h2: "[(''1002'', exApp ''Beta'' 100 0)] \<noteq> []"
    by simp
  have h5: "\<forall>e\<in>set [(''1002'', exApp ''Beta'' 100 0)]. isStr (title (snd e))"
    by (simp add: exApp_def isStr_def)
  have good: "spec_isGood (exApp ''Beta'' 100 0) (exApp ''Beta'' 80 0)"
    by (simp add: spec_isGood_def exApp_def)
  have cmp: "comparisonOf [(''1002'', exApp ''Beta'' 80 0)] ''1002'' = exApp ''Beta'' 80 0"
    by (simp add: comparisonOf_def)
  from section_good_rule [OF h1 h2 h3 h4 h5, of integerString codeCompare "''November 1, 2026''"]
  obtain totals secs ids where
    m: "buildSlackMessage integerString codeCompare exOneAppSales ''November 1, 2026''
          = Inr (MsgAttachments (totals # secs))"
    and perm: "mset ids = mset (map fst [(''1002'', exApp ''Beta'' 100 0)])"
    and len: "length secs = min (length [(''1002'', exApp ''Beta'' 100 0)]) MAX_ATTACHMENTS"
    and each: "\<And>i. i < length secs \<Longrightarrow> \<exists>a.
          (ids ! i, a) \<in> set [(''1002'', exApp ''Beta'' 100 0)]
        \<and> author_name (secs ! i) = Some (title a)
        \<and> color (secs ! i) =
            (if spec_isGood a (comparisonOf [(''1002'', exApp ''Beta'' 80 0)] (ids ! i))
             then ''good'' else ''danger'')
        \<and> att_fields (secs ! i) =
            createFields integerString (installs a) (revenue a)
              (installs (comparisonOf [(''1002'', exApp ''Beta'' 80 0)] (ids ! i)))
              (revenue (comparisonOf [(''1002'', exApp ''Beta'' 80 0)] (ids ! i)))
              (installs (comparisonOf [] (ids ! i))) (revenue (comparisonOf [] (ids ! i)))
        \<and> map field_title (att_fields (secs ! i)) =
            (if revenue a \<noteq> 0 then [Some ''Downloads'', Some ''Revenue'', None, None]
             else [Some ''Downloads'', None])"
    by blast
  from len have l1: "length secs = 1"
    by (simp add: MAX_ATTACHMENTS_def)
  then obtain sec where secs: "secs = [sec]"
    by (cases secs) auto
  from each [of 0] l1 obtain a where
    ad: "(ids ! 0, a) \<in> set [(''1002'', exApp ''Beta'' 100 0)]"
    and nm: "author_name (secs ! 0) = Some (title a)"
    and col: "color (secs ! 0) =
        (if spec_isGood a (comparisonOf [(''1002'', exApp ''Beta'' 80 0)] (ids ! 0))
         then ''good'' else ''danger'')"
    and tl: "map field_title (att_fields (secs ! 0)) =
        (if revenue a \<noteq> 0 then [Some ''Downloads'', Some ''Revenue'', None, None]
         else [Some ''Downloads'', None])"
    by auto
  from ad have k: "ids ! 0 = ''1002''" and a: "a = exApp ''Beta'' 100 0"
    by simp_all
  have "author_name sec = Some (Str ''Beta'')"
    using nm by (simp add: secs a exApp_def)
  moreover have "color sec = ''good''"
    using col good by (simp add: secs a k cmp)
  moreover have "map field_title (att_fields sec) = [Some ''Downloads'', None]"
    using tl by (simp add: secs a exApp_def)
  ultimately show ?thesis
    using h1 h3 good m by (simp add: secs exApp_def isStr_def)
qed

lemma totalOver_day:
  assumes "distinct (map fst d)"
  shows "totalOver f d (map fst d) = sumOver (\<lambda>k a. f a) d"
proof -
  have e: "((\<lambda>k. f (comparisonOf d k)) \<circ> fst) x = (case x of (k, a) \<Rightarrow> f a)"
    if "x \<in> set d" for x
  proof -
    obtain k a where x: "x = (k, a)"
      by (cases x)
    with that assms have "map_of d k = Some a"
      by simp
    then show ?thesis
      by (simp add: x comparisonOf_def)
  qed
  have "map (\<lambda>k. f (comparisonOf d k)) (map fst d) = map (\<lambda>(k, a). f a) d"
    unfolding map_map by (rule map_cong [OF refl]) (rule e)
  then show ?thesis
    unfolding totalOver_def sumOver_def by (rule arg_cong)
qed

lemma totalOver_comparison:
  "totalOver f m (map fst d) = sumOver (\<lambda>k a. f (comparisonOf m k)) d"
  by (induction d) (auto simp: totalOver_def sumOver_def)

subsection \<open>C10: the totals cover the dropped apps\<close>

text \<open>
  C10. Under the same conditions, and with the keys of \<^verbatim>\<open>day\<close> distinct, the fields of
  the Totals section are built from the sums over all entries of \<^verbatim>\<open>day\<close>: of their
  installs and revenue, and of the installs and revenue of their prior-day and
  prior-week records. The cap of 20 applies to the per-app sections only.
\<close>

theorem totals_over_all_apps:
  assumes "day sales = Some d" and "d \<noteq> []"
    and "prevDay sales = Some pd" and "prevWeek sales = Some pw"
    and "\<forall>e\<in>set d. isStr (title (snd e))"
    and "distinct (map fst d)"
  shows "\<exists>totals secs. buildSlackMessage S lc sales dateStr = Inr (MsgAttachments (totals # secs))
           \<and> length secs = min (length d) MAX_ATTACHMENTS
           \<and> att_title totals = Some ''Totals''
           \<and> att_fields totals =
               createFields S
                 (sumOver (\<lambda>k a. installs a) d)
                 (sumOver (\<lambda>k a. revenue a) d)
                 (sumOver (\<lambda>k a. installs (comparisonOf pd k)) d)
                 (sumOver (\<lambda>k a. revenue (comparisonOf pd k)) d)
                 (sumOver (\<lambda>k a. installs (comparisonOf pw k)) d)
                 (sumOver (\<lambda>k a. revenue (comparisonOf pw k)) d)"
proof -
  from buildSlackMessage_sections [OF assms(1-5), of S lc dateStr] obtain ids where
    perm: "mset ids = mset (map fst d)"
    and msg: "buildSlackMessage S lc sales dateStr =
       Inr (MsgAttachments
         (totalsOf S dateStr
            \<lparr> day = totalOver installs d (map fst d),
              prevDay = totalOver installs pd (map fst d),
              prevWeek = totalOver installs pw (map fst d) \<rparr>
            \<lparr> day = totalOver revenue d (map fst d),
              prevDay = totalOver revenue pd (map fst d),
              prevWeek = totalOver revenue pw (map fst d) \<rparr>
          # take MAX_ATTACHMENTS (map (sectionFor S d pd pw) ids)))"
    by blast
  define secs where "secs = take MAX_ATTACHMENTS (map (sectionFor S d pd pw) ids)"
  define totals where "totals = totalsOf S dateStr
      \<lparr> day = totalOver installs d (map fst d),
        prevDay = totalOver installs pd (map fst d),
        prevWeek = totalOver installs pw (map fst d) \<rparr>
      \<lparr> day = totalOver revenue d (map fst d),
        prevDay = totalOver revenue pd (map fst d),
        prevWeek = totalOver revenue pw (map fst d) \<rparr>"
  have m: "buildSlackMessage S lc sales dateStr = Inr (MsgAttachments (totals # secs))"
    using msg by (simp only: totals_def secs_def)
  have len: "length secs = min (length d) MAX_ATTACHMENTS"
    using length_take_sections [OF perm, of "sectionFor S d pd pw"] by (simp add: secs_def)
  have t: "att_title totals = Some ''Totals''"
    by (simp add: totals_def totalsOf_def)
  have f: "att_fields totals =
      createFields S
        (sumOver (\<lambda>k a. installs a) d)
        (sumOver (\<lambda>k a. revenue a) d)
        (sumOver (\<lambda>k a. installs (comparisonOf pd k)) d)
        (sumOver (\<lambda>k a. revenue (comparisonOf pd k)) d)
        (sumOver (\<lambda>k a. installs (comparisonOf pw k)) d)
        (sumOver (\<lambda>k a. revenue (comparisonOf pw k)) d)"
    by (simp add: totals_def totalsOf_def)
      (simp only: totalOver_day [OF assms(6), of installs] totalOver_day [OF assms(6), of revenue]
        totalOver_comparison [of installs pd d] totalOver_comparison [of revenue pd d]
        totalOver_comparison [of installs pw d] totalOver_comparison [of revenue pw d])
  show ?thesis
    using m len t f by blast
qed

text \<open>
  The witness: 21 apps of one install each give 20 per-app sections and a Totals section
  with 21 downloads, one more than the sections shown add up to.
\<close>

theorem totals_over_all_apps_witness:
  "day (exManySales 21) = Some (exManyApps 21) \<and> length (exManyApps 21) = 21
   \<and> list_all (\<lambda>e. isStr (title (snd e))) (exManyApps 21)
   \<and> distinct (map fst (exManyApps 21))
   \<and> (\<exists>totals secs. buildSlackMessage integerString codeCompare (exManySales 21)
            ''November 1, 2026'' = Inr (MsgAttachments (totals # secs))
          \<and> length secs = 20
          \<and> att_fields totals =
               [SlackField (Some ''Downloads'') ''21'' True,
                SlackField None ''+100.0% day / +100.0% week'' True])"
proof -
  have h1: "day (exManySales 21) = Some (exManyApps 21)"
    and h3: "prevDay (exManySales 21) = Some []" and h4: "prevWeek (exManySales 21) = Some []"
    by (simp_all add: exManySales_def)
  have len: "length (exManyApps 21) = 21"
    by (simp add: exManyApps_def)
  then have h2: "exManyApps 21 \<noteq> []"
    by auto
  have h5: "\<forall>e\<in>set (exManyApps 21). isStr (title (snd e))"
    by (auto simp: exManyApps_def exApp_def isStr_def)
  have h6: "distinct (map fst (exManyApps 21))"
    by code_simp
  have s1: "sumOver (\<lambda>k a. installs a) (exManyApps 21) = 21"
    and s2: "sumOver (\<lambda>k a. revenue a) (exManyApps 21) = 0"
    and s3: "sumOver (\<lambda>k a. installs (comparisonOf [] k)) (exManyApps 21) = 0"
    and s4: "sumOver (\<lambda>k a. revenue (comparisonOf [] k)) (exManyApps 21) = 0"
    by code_simp+
  have f: "createFields integerString 21 0 0 0 0 0 =
      [SlackField (Some ''Downloads'') ''21'' True,
       SlackField None ''+100.0% day / +100.0% week'' True]"
    by code_simp
  show ?thesis
    using totals_over_all_apps [OF h1 h2 h3 h4 h5 h6, of integerString codeCompare "''November 1, 2026''"]
      h1 len h5 h6
    by (auto simp: list_all_iff s1 s2 s3 s4 f MAX_ATTACHMENTS_def)
qed

end
